theory Spec2Isabelle
  imports Complex_Main "HOL-Library.Word"
begin

section \<open>Camera monitoring bot: data model\<close>

text \<open>
  The repository holds two revisions of one program: \<^verbatim>\<open>tgalert2-stable.py\<close> (frame-difference
  score, chat commands) and \<^verbatim>\<open>tgalert3-halfpoop.py\<close> (contour detector, MJPEG streams).
  Functions and fields keep their source names; where both revisions define the same name,
  the one of \<^verbatim>\<open>tgalert2-stable.py\<close> carries the suffix \<open>_v2\<close>.

  Images are numpy arrays of unsigned bytes. A grayscale image is a list of rows of bytes, a
  colour frame a list of rows of (blue, green, red) pixels.
\<close>

type_synonym cam_id = string
type_synonym pixel = "8 word"
type_synonym gray = "pixel list list"
type_synonym bgr = "pixel \<times> pixel \<times> pixel"
type_synonym image = "bgr list list"
type_synonym bytes = "8 word list"
type_synonym point = "int \<times> int"
type_synonym contour = "point list"

text \<open>The \<^verbatim>\<open>shape\<close> of an array: rows, then columns.\<close>

definition shape :: "'a list list \<Rightarrow> nat \<times> nat" where
  "shape img = (length img, case img of [] \<Rightarrow> 0 | r # _ \<Rightarrow> length r)"

text \<open>Every exception the code catches with \<^verbatim>\<open>except Exception\<close> is a value of this type.\<close>

datatype py_error = CvError | TelegramError | OSError | ValueError | RequestError

text \<open>
  A Python result that is only ever \<^verbatim>\<open>None\<close> or a boolean, with its truth value
  (\<^verbatim>\<open>bool(None)\<close> is \<^verbatim>\<open>False\<close>).
\<close>

datatype py_value = PyNone | PyBool bool

fun truthy :: "py_value \<Rightarrow> bool" where
  "truthy PyNone = False"
| "truthy (PyBool b) = b"

subsection \<open>Configuration\<close>

text \<open>
  \<^verbatim>\<open>load_config\<close> merges the JSON file over a dictionary of defaults, so every key below
  is present. The record has the keys of \<^verbatim>\<open>tgalert3-halfpoop.py\<close>; the older revision
  reads only the first eight.
\<close>

record cam_data =
  url :: string
  user :: string
  password :: string

record config =
  token :: string
  admin_chat_id :: string
  cameras :: "cam_id \<rightharpoonup> cam_data"
  motion_enabled :: bool
  cooldown :: real
  threshold :: int
  check_interval :: real
  timeout :: real
  draw_contours :: bool
  contour_color :: "int list"
  contour_thickness :: int
  min_contour_area :: real
  frame_width :: int
  frame_height :: int

text \<open>The defaults of \<^verbatim>\<open>load_config\<close> (\<^verbatim>\<open>tgalert3-halfpoop.py\<close>, lines 17 to 32).\<close>

definition default_config :: config where
  "default_config =
     \<lparr>token = ''YOUR_BOT_TOKEN'', admin_chat_id = ''YOUR_CHAT_ID'', cameras = Map.empty,
      motion_enabled = True, cooldown = 30, threshold = 30000, check_interval = 5,
      timeout = 10, draw_contours = True, contour_color = [0, 255, 0],
      contour_thickness = 2, min_contour_area = 1000, frame_width = 800,
      frame_height = 600\<rparr>"

subsection \<open>The OpenCV calls, as parameters\<close>

text \<open>
  OpenCV is not part of the repository. Each call the code makes is a field of the record
  \<open>cv2\<close>, taking the arguments the code passes and returning either the exception it raises
  or its result. The theorems hold for every such record; what a theorem needs to know
  about the library is stated as a hypothesis on the record. (\<^verbatim>\<open>cv2.threshold\<close> is the
  field \<open>threshold_cv\<close>, since \<open>threshold\<close> is a key of the configuration; of its two results
  the code keeps the image.)
\<close>

datatype color_code = COLOR_BGR2GRAY
datatype thresh_type = THRESH_BINARY
datatype retr_mode = RETR_EXTERNAL
datatype approx_mode = CHAIN_APPROX_SIMPLE

record cv2 =
  cvtColor :: "image \<Rightarrow> color_code \<Rightarrow> py_error + gray"
  GaussianBlur :: "gray \<Rightarrow> nat \<times> nat \<Rightarrow> real \<Rightarrow> py_error + gray"
  absdiff :: "gray \<Rightarrow> gray \<Rightarrow> py_error + gray"
  threshold_cv :: "gray \<Rightarrow> pixel \<Rightarrow> pixel \<Rightarrow> thresh_type \<Rightarrow> py_error + gray"
  dilate :: "gray \<Rightarrow> gray \<Rightarrow> nat \<Rightarrow> py_error + gray"
  erode :: "gray \<Rightarrow> gray \<Rightarrow> nat \<Rightarrow> py_error + gray"
  findContours :: "gray \<Rightarrow> retr_mode \<Rightarrow> approx_mode \<Rightarrow> py_error + contour list"
  contourArea :: "contour \<Rightarrow> py_error + real"
  boundingRect :: "contour \<Rightarrow> py_error + (int \<times> int \<times> int \<times> int)"
  rectangle :: "image \<Rightarrow> point \<Rightarrow> point \<Rightarrow> int list \<Rightarrow> int \<Rightarrow> py_error + image"
  imencode :: "string \<Rightarrow> image \<Rightarrow> py_error + bytes"

text \<open>\<^verbatim>\<open>np.ones((h, w), np.uint8)\<close>.\<close>

definition np_ones :: "nat \<Rightarrow> nat \<Rightarrow> gray" where
  "np_ones h w = replicate h (replicate w 1)"

subsection \<open>The object store\<close>

text \<open>
  Colour frames are mutable objects: \<^verbatim>\<open>cv2.rectangle\<close> draws into the array it is given,
  and \<^verbatim>\<open>frame.copy()\<close> makes a new array. A frame is therefore a reference into a store;
  the store is the list of all arrays allocated so far, a reference is an index into it, and
  an allocation appends. Grayscale arrays are never written after they are made, so they are
  kept by value.
\<close>

type_synonym ref = nat
type_synonym store = "image list"

definition allocated :: "store \<Rightarrow> ref \<Rightarrow> bool" where
  "allocated h r = (r < length h)"

definition alloc :: "store \<Rightarrow> image \<Rightarrow> ref \<times> store" where
  "alloc h img = (length h, h @ [img])"

subsection \<open>The state of \<^verbatim>\<open>CameraSystem\<close> (\<^verbatim>\<open>tgalert3-halfpoop.py\<close>)\<close>

text \<open>
  A \<^verbatim>\<open>cv2.VideoCapture\<close> object: whether it is open, and the results its next reads will
  give (\<open>None\<close> is a read with \<^verbatim>\<open>ret = False\<close>; a stream with nothing left fails to read).
\<close>

record stream =
  sid :: nat
  opened :: bool
  pending :: "image option list"

text \<open>
  The fields of \<^verbatim>\<open>CameraSystem.__init__\<close> that the methods below read or write
  (\<^verbatim>\<open>lock\<close>, \<^verbatim>\<open>background_subtractor\<close> and \<^verbatim>\<open>motion_history\<close> are never used after
  construction).
\<close>

record camera_system =
  config :: config
  prev_frames :: "cam_id \<rightharpoonup> gray"
  camera_status :: "cam_id \<rightharpoonup> bool"
  last_notification :: real
  mjpeg_streams :: "cam_id \<rightharpoonup> stream"

text \<open>
  A photo handed to \<^verbatim>\<open>bot.send_photo\<close>: the chat, the encoded image, and the camera
  named in the caption.
\<close>

record photo_msg =
  chat_id :: string
  photo :: bytes
  caption_cam :: cam_id

text \<open>Calls made on video streams, in order.\<close>

datatype io_event = Connect string | Read nat | Release nat

text \<open>
  Everything a method can read or change: the object store, the \<^verbatim>\<open>CameraSystem\<close> object,
  the calls made to \<^verbatim>\<open>bot.send_photo\<close> so far (each with whether it was delivered), and
  the calls made on video streams so far.
\<close>

record world =
  heap :: store
  sys :: camera_system
  bot_calls :: "(photo_msg \<times> bool) list"
  io_log :: "io_event list"

section \<open>Motion detection (\<^verbatim>\<open>tgalert3-halfpoop.py\<close>, \<^verbatim>\<open>calculate_motion\<close>)\<close>

text \<open>Lines 152 and 153: the grayscale conversion and the 21 by 21 Gaussian blur.\<close>

definition blurred_gray :: "cv2 \<Rightarrow> image \<Rightarrow> py_error + gray" where
  "blurred_gray lib img =
     (case cvtColor lib img COLOR_BGR2GRAY of
        Inl e \<Rightarrow> Inl e
      | Inr g \<Rightarrow> GaussianBlur lib g (21, 21) 0)"

text \<open>
  Lines 160 to 167: difference against the reference, binarisation at 25, two dilations
  and one erosion with a 5 by 5 kernel of ones, external contours.
\<close>

definition changed_contours :: "cv2 \<Rightarrow> gray \<Rightarrow> gray \<Rightarrow> py_error + contour list" where
  "changed_contours lib prev_gray gray_img =
     (case absdiff lib prev_gray gray_img of
        Inl e \<Rightarrow> Inl e
      | Inr frame_diff \<Rightarrow>
     (case threshold_cv lib frame_diff 25 255 THRESH_BINARY of
        Inl e \<Rightarrow> Inl e
      | Inr thresh \<Rightarrow>
     (case dilate lib thresh (np_ones 5 5) 2 of
        Inl e \<Rightarrow> Inl e
      | Inr thresh1 \<Rightarrow>
     (case erode lib thresh1 (np_ones 5 5) 1 of
        Inl e \<Rightarrow> Inl e
      | Inr thresh2 \<Rightarrow> findContours lib thresh2 RETR_EXTERNAL CHAIN_APPROX_SIMPLE))))"

text \<open>
  Lines 171 to 180, the loop over the contours. It carries \<^verbatim>\<open>motion_detected\<close> and the
  store, and draws into the array \<open>processed_frame\<close> refers to. An exception leaves the
  loop with the store as it is at that moment.
\<close>

fun mark_contours ::
  "cv2 \<Rightarrow> config \<Rightarrow> ref \<Rightarrow> contour list \<Rightarrow> bool \<Rightarrow> store \<Rightarrow> (py_error + bool) \<times> store" where
  "mark_contours lib cfg processed_frame [] motion_detected h = (Inr motion_detected, h)"
| "mark_contours lib cfg processed_frame (c # cs) motion_detected h =
     (case contourArea lib c of
        Inl e \<Rightarrow> (Inl e, h)
      | Inr area \<Rightarrow>
          if area < min_contour_area cfg
          then mark_contours lib cfg processed_frame cs motion_detected h
          else if draw_contours cfg
          then (case boundingRect lib c of
                  Inl e \<Rightarrow> (Inl e, h)
                | Inr (x, y, w, ht) \<Rightarrow>
                    (case rectangle lib (h ! processed_frame) (x, y) (x + w, y + ht)
                            (contour_color cfg) (contour_thickness cfg) of
                       Inl e \<Rightarrow> (Inl e, h)
                     | Inr drawn \<Rightarrow>
                         mark_contours lib cfg processed_frame cs True
                           (h[processed_frame := drawn])))
          else mark_contours lib cfg processed_frame cs True h)"

text \<open>
  The body of the \<^verbatim>\<open>try\<close> block, lines 152 to 183. The result is the exception or the
  returned pair, together with the world at that moment.
\<close>

definition calculate_motion_try ::
  "cv2 \<Rightarrow> ref \<Rightarrow> cam_id \<Rightarrow> world \<Rightarrow> (py_error + bool \<times> ref) \<times> world" where
  "calculate_motion_try lib frame cam w =
     (case blurred_gray lib (heap w ! frame) of
        Inl e \<Rightarrow> (Inl e, w)
      | Inr gray_img \<Rightarrow>
     (case prev_frames (sys w) cam of
        None \<Rightarrow>
          (Inr (False, frame),
           w\<lparr>sys := (sys w)\<lparr>prev_frames := (prev_frames (sys w))(cam \<mapsto> gray_img)\<rparr>\<rparr>)
      | Some prev_gray \<Rightarrow>
     (case changed_contours lib prev_gray gray_img of
        Inl e \<Rightarrow> (Inl e, w)
      | Inr contours \<Rightarrow>
     (case alloc (heap w) (heap w ! frame) of (processed_frame, h1) \<Rightarrow>
     (case mark_contours lib (config (sys w)) processed_frame contours False h1 of
        (Inl e, h2) \<Rightarrow> (Inl e, w\<lparr>heap := h2\<rparr>)
      | (Inr motion_detected, h2) \<Rightarrow>
          (Inr (motion_detected, processed_frame),
           w\<lparr>heap := h2,
             sys := (sys w)\<lparr>prev_frames := (prev_frames (sys w))(cam \<mapsto> gray_img)\<rparr>\<rparr>))))))"

text \<open>Lines 150 to 187: the \<^verbatim>\<open>try\<close> block with its handler, which returns \<^verbatim>\<open>False, frame\<close>.\<close>

definition calculate_motion :: "cv2 \<Rightarrow> ref \<Rightarrow> cam_id \<Rightarrow> world \<Rightarrow> (bool \<times> ref) \<times> world" where
  "calculate_motion lib frame cam w =
     (case calculate_motion_try lib frame cam w of
        (Inl e, w') \<Rightarrow> ((False, frame), w')
      | (Inr r, w') \<Rightarrow> (r, w'))"

section \<open>Alert dispatch (\<^verbatim>\<open>tgalert3-halfpoop.py\<close>, \<^verbatim>\<open>send_alert\<close>)\<close>

text \<open>
  What the outside world answers during one call: the clock reading of \<^verbatim>\<open>time.time()\<close>
  (a real number; the rounding of floating point is not modelled) and the outcome of
  \<^verbatim>\<open>bot.send_photo\<close> for a given photo.
\<close>

record alert_env =
  time_now :: real
  send_photo :: "photo_msg \<Rightarrow> py_error + unit"

text \<open>
  Lines 189 to 203. Every path ends without a \<^verbatim>\<open>return\<close> value, so the result is
  \<^verbatim>\<open>None\<close>.
\<close>

definition send_alert :: "cv2 \<Rightarrow> alert_env \<Rightarrow> cam_id \<Rightarrow> ref \<Rightarrow> world \<Rightarrow> py_value \<times> world" where
  "send_alert lib env cam frame w =
     (let current_time = time_now env in
      if current_time - last_notification (sys w) < cooldown (config (sys w)) then (PyNone, w)
      else
        (case imencode lib ''.jpg'' (heap w ! frame) of
           Inl e \<Rightarrow> (PyNone, w)
         | Inr buffer \<Rightarrow>
             (let msg = \<lparr>chat_id = admin_chat_id (config (sys w)), photo = buffer,
                         caption_cam = cam\<rparr>
              in case send_photo env msg of
                   Inl e \<Rightarrow> (PyNone, w\<lparr>bot_calls := bot_calls w @ [(msg, False)]\<rparr>)
                 | Inr ok \<Rightarrow>
                     (PyNone,
                      w\<lparr>bot_calls := bot_calls w @ [(msg, True)],
                        sys := (sys w)\<lparr>last_notification := current_time\<rparr>\<rparr>))))"

text \<open>The number of alerts delivered so far.\<close>

definition delivered :: "(photo_msg \<times> bool) list \<Rightarrow> nat" where
  "delivered calls = length (filter snd calls)"

section \<open>Frame sources (\<^verbatim>\<open>tgalert3-halfpoop.py\<close>)\<close>

text \<open>
  What fetching a frame asks of the outside world: the HTTP request of
  \<^verbatim>\<open>requests.get\<close>, the decoder \<^verbatim>\<open>cv2.imdecode\<close> (\<open>None\<close> for bytes that are no
  image), the constructor \<^verbatim>\<open>cv2.VideoCapture\<close>, and the path component that
  \<^verbatim>\<open>urlparse\<close> finds in a URL.
\<close>

record http_response =
  status_code :: int
  content :: bytes

record camera_io =
  http_get :: "cam_data \<Rightarrow> real \<Rightarrow> py_error + http_response"
  imdecode :: "bytes \<Rightarrow> py_error + image option"
  VideoCapture :: "string \<Rightarrow> py_error + stream"
  urlparse_path :: "string \<Rightarrow> string"

text \<open>\<^verbatim>\<open>stream.read()\<close>: the next pending result, if any.\<close>

definition stream_read :: "stream \<Rightarrow> image option \<times> stream" where
  "stream_read st =
     (case pending st of [] \<Rightarrow> (None, st) | r # rs \<Rightarrow> (r, st\<lparr>pending := rs\<rparr>))"

text \<open>
  Lines 120 to 129 of \<^verbatim>\<open>process_mjpeg_camera\<close>: one call of \<^verbatim>\<open>cv2.VideoCapture\<close>; the
  handle is stored only when it is open and its first read succeeds.
\<close>

definition open_stream :: "camera_io \<Rightarrow> cam_id \<Rightarrow> cam_data \<Rightarrow> world \<Rightarrow> ref option \<times> world" where
  "open_stream io cam cd w =
     (let w1 = w\<lparr>io_log := io_log w @ [Connect (url cd)]\<rparr> in
      case VideoCapture io (url cd) of
        Inl e \<Rightarrow> (None, w1)
      | Inr st \<Rightarrow>
          if opened st then
            (let w2 = w1\<lparr>io_log := io_log w1 @ [Read (sid st)]\<rparr> in
             case stream_read st of
               (Some img, st') \<Rightarrow>
                 (case alloc (heap w2) img of (frame, h') \<Rightarrow>
                    (Some frame,
                     w2\<lparr>heap := h',
                        sys := (sys w2)\<lparr>mjpeg_streams := (mjpeg_streams (sys w2))(cam \<mapsto> st')\<rparr>\<rparr>))
             | (None, st') \<Rightarrow> (None, w2))
          else (None, w1))"

text \<open>Lines 109 to 129.\<close>

definition process_mjpeg_camera ::
  "camera_io \<Rightarrow> cam_id \<Rightarrow> cam_data \<Rightarrow> world \<Rightarrow> ref option \<times> world" where
  "process_mjpeg_camera io cam cd w =
     (case mjpeg_streams (sys w) cam of
        None \<Rightarrow> open_stream io cam cd w
      | Some st \<Rightarrow>
          if opened st then
            (let w1 = w\<lparr>io_log := io_log w @ [Read (sid st)]\<rparr> in
             case stream_read st of
               (Some img, st') \<Rightarrow>
                 (case alloc (heap w1) img of (frame, h') \<Rightarrow>
                    (Some frame,
                     w1\<lparr>heap := h',
                        sys := (sys w1)\<lparr>mjpeg_streams := (mjpeg_streams (sys w1))(cam \<mapsto> st')\<rparr>\<rparr>))
             | (None, st') \<Rightarrow>
                 open_stream io cam cd
                   (w1\<lparr>io_log := io_log w1 @ [Release (sid st)],
                       sys := (sys w1)\<lparr>mjpeg_streams := (mjpeg_streams (sys w1))(cam := None)\<rparr>\<rparr>))
          else open_stream io cam cd w)"

text \<open>Lines 95 to 107.\<close>

definition process_jpeg_camera :: "camera_io \<Rightarrow> cam_data \<Rightarrow> world \<Rightarrow> ref option \<times> world" where
  "process_jpeg_camera io cd w =
     (case http_get io cd (timeout (config (sys w))) of
        Inl e \<Rightarrow> (None, w)
      | Inr response \<Rightarrow>
          if status_code response = 200 then
            (case imdecode io (content response) of
               Inl e \<Rightarrow> (None, w)
             | Inr None \<Rightarrow> (None, w)
             | Inr (Some img) \<Rightarrow>
                 (case alloc (heap w) img of (frame, h') \<Rightarrow> (Some frame, w\<lparr>heap := h'\<rparr>)))
          else (None, w))"

text \<open>
  \<^verbatim>\<open>str.lower\<close> on the ASCII letters, and the substring test \<^verbatim>\<open>in\<close>. (No character outside
  ASCII lowers to one of the letters of \<^verbatim>\<open>mjpg\<close> or \<^verbatim>\<open>mjpeg\<close>.)
\<close>

definition lower_char :: "char \<Rightarrow> char" where
  "lower_char c =
     (case map_of (zip ''ABCDEFGHIJKLMNOPQRSTUVWXYZ'' ''abcdefghijklmnopqrstuvwxyz'') c of
        None \<Rightarrow> c
      | Some d \<Rightarrow> d)"

definition lower :: "string \<Rightarrow> string" where
  "lower s = map lower_char s"

fun starts_with :: "string \<Rightarrow> string \<Rightarrow> bool" where
  "starts_with [] s = True"
| "starts_with (a # as) [] = False"
| "starts_with (a # as) (c # cs) = (a = c \<and> starts_with as cs)"

fun py_in :: "string \<Rightarrow> string \<Rightarrow> bool" where
  "py_in sub [] = starts_with sub []"
| "py_in sub (c # cs) = (starts_with sub (c # cs) \<or> py_in sub cs)"

text \<open>Lines 131 to 133.\<close>

definition is_mjpeg_url :: "camera_io \<Rightarrow> string \<Rightarrow> bool" where
  "is_mjpeg_url io u =
     (py_in ''mjpg'' (lower (urlparse_path io u)) \<or> py_in ''mjpeg'' (lower (urlparse_path io u)))"

text \<open>
  Lines 85 to 93. Neither branch lets an exception out in this model, so the handler of
  \<^verbatim>\<open>process_camera\<close> has nothing to catch.
\<close>

definition process_camera :: "camera_io \<Rightarrow> cam_id \<Rightarrow> cam_data \<Rightarrow> world \<Rightarrow> ref option \<times> world" where
  "process_camera io cam cd w =
     (if is_mjpeg_url io (url cd) then process_mjpeg_camera io cam cd w
      else process_jpeg_camera io cd w)"

section \<open>The chat-command revision (\<^verbatim>\<open>tgalert2-stable.py\<close>)\<close>

text \<open>
  \<^verbatim>\<open>CameraSystem\<close> of this revision keeps whole colour frames as references and has no
  streams. It never writes into a frame, so frames are kept by value here.
\<close>

record camera_system_v2 =
  config_v2 :: config
  prev_frames_v2 :: "cam_id \<rightharpoonup> image"
  camera_status_v2 :: "cam_id \<rightharpoonup> bool"
  last_notification_v2 :: real

datatype reply = ReplyUsageRemove | ReplyRemoved cam_id | ReplyNotFound cam_id

text \<open>
  The world of this revision: the global \<^verbatim>\<open>system\<close>, the configurations handed to
  \<^verbatim>\<open>json.dump\<close> for \<^verbatim>\<open>cam_config.json\<close> so far, the image files in the working directory,
  the calls made to \<^verbatim>\<open>bot.send_photo\<close>, and the replies sent to the chat.
\<close>

record world_v2 =
  system :: camera_system_v2
  saved :: "config list"
  files :: "string \<rightharpoonup> bytes"
  bot_calls_v2 :: "(photo_msg \<times> bool) list"
  replies :: "reply list"

text \<open>
  Lines 37 to 43. \<^verbatim>\<open>save_config\<close> swallows every exception of the write, so it always
  returns normally; what it does is issue the write, which is recorded.
\<close>

definition save_config :: "config \<Rightarrow> world_v2 \<Rightarrow> world_v2" where
  "save_config cfg w = w\<lparr>saved := saved w @ [cfg]\<rparr>"

text \<open>
  Lines 122 to 143. \<open>imwrite\<close> is the outcome of \<^verbatim>\<open>cv2.imwrite\<close>: an exception, or the
  bytes written (\<open>None\<close> when it returns \<^verbatim>\<open>False\<close> and writes nothing). It is called before
  the \<^verbatim>\<open>try\<close>, so its exception leaves \<^verbatim>\<open>send_alert\<close>.
\<close>

definition send_alert_v2 ::
  "(string \<Rightarrow> image \<Rightarrow> py_error + bytes option) \<Rightarrow> alert_env \<Rightarrow> cam_id \<Rightarrow> image \<Rightarrow> world_v2
     \<Rightarrow> (py_error + py_value) \<times> world_v2" where
  "send_alert_v2 imwrite env cam frame w =
     (let current_time = time_now env in
      if current_time - last_notification_v2 (system w) < cooldown (config_v2 (system w))
      then (Inr PyNone, w)
      else
        (let alert_file = ''alert_'' @ cam @ ''.jpg'' in
         case imwrite alert_file frame of
           Inl e \<Rightarrow> (Inl e, w)
         | Inr written \<Rightarrow>
             (let w1 = (case written of
                          None \<Rightarrow> w
                        | Some b \<Rightarrow> w\<lparr>files := (files w)(alert_file \<mapsto> b)\<rparr>)
              in case files w1 alert_file of
                   None \<Rightarrow> (Inr PyNone, w1)
                 | Some b \<Rightarrow>
                     (let msg = \<lparr>chat_id = admin_chat_id (config_v2 (system w1)), photo = b,
                                 caption_cam = cam\<rparr>
                      in case send_photo env msg of
                           Inl e \<Rightarrow>
                             (Inr PyNone,
                              w1\<lparr>bot_calls_v2 := bot_calls_v2 w1 @ [(msg, False)],
                                 files := (files w1)(alert_file := None)\<rparr>)
                         | Inr ok \<Rightarrow>
                             (Inr PyNone,
                              w1\<lparr>bot_calls_v2 := bot_calls_v2 w1 @ [(msg, True)],
                                 system := (system w1)\<lparr>last_notification_v2 := current_time\<rparr>,
                                 files := (files w1)(alert_file := None)\<rparr>)))))"

text \<open>
  The argument of \<^verbatim>\<open>CameraSystem.set_sensitivity\<close> is an integer (the command handler
  passes one) or text. \<^verbatim>\<open>int(threshold)\<close> is the identity on an integer; on text it
  parses, which is the parameter \<open>parse\<close>, or raises \<^verbatim>\<open>ValueError\<close>.
\<close>

datatype py_arg = PyInt int | PyStr string

fun py_int :: "(string \<Rightarrow> int option) \<Rightarrow> py_arg \<Rightarrow> py_error + int" where
  "py_int parse (PyInt n) = Inr n"
| "py_int parse (PyStr t) = (case parse t of None \<Rightarrow> Inl ValueError | Some n \<Rightarrow> Inr n)"

text \<open>Lines 151 to 161.\<close>

definition set_sensitivity ::
  "(string \<Rightarrow> int option) \<Rightarrow> py_arg \<Rightarrow> world_v2 \<Rightarrow> bool \<times> world_v2" where
  "set_sensitivity parse v w =
     (case py_int parse v of
        Inl e \<Rightarrow> (False, w)
      | Inr n \<Rightarrow>
          if 1000 \<le> n \<and> n \<le> 100000 then
            (let cfg = (config_v2 (system w))\<lparr>threshold := n\<rparr>
             in (True, save_config cfg (w\<lparr>system := (system w)\<lparr>config_v2 := cfg\<rparr>\<rparr>)))
          else (False, w))"

text \<open>\<^verbatim>\<open>str\<close> of an integer: its decimal digits, with a minus sign when negative.\<close>

fun digits :: "nat \<Rightarrow> string" where
  "digits n =
     (if n < 10 then [''0123456789'' ! n]
      else digits (n div 10) @ [''0123456789'' ! (n mod 10)])"

definition py_str :: "int \<Rightarrow> string" where
  "py_str i = (if i < 0 then CHR ''-'' # digits (nat (- i)) else digits (nat i))"

text \<open>
  Lines 333 to 350, the handler of \<^verbatim>\<open>/remove\<close>, called with the id of the chat the
  command came from and the command's arguments.
\<close>

definition remove_camera :: "int \<Rightarrow> string list \<Rightarrow> world_v2 \<Rightarrow> world_v2" where
  "remove_camera effective_chat_id args w =
     (if py_str effective_chat_id \<noteq> admin_chat_id (config_v2 (system w)) then w
      else
        (case args of
           [] \<Rightarrow> w\<lparr>replies := replies w @ [ReplyUsageRemove]\<rparr>
         | cam # rest \<Rightarrow>
             if cameras (config_v2 (system w)) cam \<noteq> None then
               (let cfg = (config_v2 (system w))
                            \<lparr>cameras := (cameras (config_v2 (system w)))(cam := None)\<rparr>;
                    w1 = save_config cfg (w\<lparr>system := (system w)\<lparr>config_v2 := cfg\<rparr>\<rparr>);
                    w2 = (if camera_status_v2 (system w1) cam \<noteq> None
                          then w1\<lparr>system := (system w1)
                                    \<lparr>camera_status_v2 := (camera_status_v2 (system w1))(cam := None)\<rparr>\<rparr>
                          else w1)
                in w2\<lparr>replies := replies w2 @ [ReplyRemoved cam]\<rparr>)
             else w\<lparr>replies := replies w @ [ReplyNotFound cam]\<rparr>))"

text \<open>
  The registry invariant of the data model: every camera id with a reachability status or
  a reference frame is a configured camera.
\<close>

definition registry_inv_v2 :: "camera_system_v2 \<Rightarrow> bool" where
  "registry_inv_v2 s =
     (dom (camera_status_v2 s) \<subseteq> dom (cameras (config_v2 s)) \<and>
      dom (prev_frames_v2 s) \<subseteq> dom (cameras (config_v2 s)))"

section \<open>A small executable stand-in for the library\<close>

text \<open>
  To run the code on concrete inputs the parameters need values. \<open>sim_cv2\<close> is a test
  double of OpenCV on small images. Its element-wise operations (\<open>absdiff\<close>, \<open>threshold\<close>,
  \<open>dilate\<close>, \<open>erode\<close>, \<open>contourArea\<close>, \<open>boundingRect\<close>) follow the library's documentation.
  The blur is the identity, which is what a normalised blur does to a frame of one colour;
  contour extraction returns nothing for a blank mask and otherwise the corner polygon of
  the box around the set pixels, which is the external contour when they form one filled
  rectangle. It is used only where a closed term is needed; no general theorem depends
  on it.
\<close>

definition empty_array :: "'a list list \<Rightarrow> bool" where
  "empty_array img = (fst (shape img) = 0 \<or> snd (shape img) = 0)"

definition luma :: "bgr \<Rightarrow> pixel" where
  "luma p = (case p of (b, g, r) \<Rightarrow>
     of_nat ((unat b * 1868 + unat g * 9617 + unat r * 4899 + 8192) div 16384))"

definition sim_cvtColor :: "image \<Rightarrow> color_code \<Rightarrow> py_error + gray" where
  "sim_cvtColor img code = (if empty_array img then Inl CvError else Inr (map (map luma) img))"

definition sim_GaussianBlur :: "gray \<Rightarrow> nat \<times> nat \<Rightarrow> real \<Rightarrow> py_error + gray" where
  "sim_GaussianBlur g ksize sigma = (if empty_array g then Inl CvError else Inr g)"

definition absdiff_px :: "pixel \<Rightarrow> pixel \<Rightarrow> pixel" where
  "absdiff_px a b = (if a \<le> b then b - a else a - b)"

definition sim_absdiff :: "gray \<Rightarrow> gray \<Rightarrow> py_error + gray" where
  "sim_absdiff a b =
     (if shape a = shape b then Inr (map2 (map2 absdiff_px) a b) else Inl CvError)"

definition sim_threshold :: "gray \<Rightarrow> pixel \<Rightarrow> pixel \<Rightarrow> thresh_type \<Rightarrow> py_error + gray" where
  "sim_threshold g thresh maxval ty =
     Inr (map (map (\<lambda>p. if thresh < p then maxval else 0)) g)"

text \<open>
  The pixels under a kernel of \<open>kh\<close> by \<open>kw\<close> anchored at its centre, clipped to the image:
  OpenCV's default border for morphology leaves pixels outside the image out of the
  maximum and the minimum.
\<close>

definition window :: "gray \<Rightarrow> nat \<Rightarrow> nat \<Rightarrow> nat \<Rightarrow> nat \<Rightarrow> pixel list" where
  "window g kh kw y x =
     concat (map (\<lambda>y'. map (\<lambda>x'. g ! y' ! x')
                          (filter (\<lambda>x'. x \<le> x' + kw div 2 \<and> x' \<le> x + kw div 2)
                                  [0 ..< length (g ! y')]))
                 (filter (\<lambda>y'. y \<le> y' + kh div 2 \<and> y' \<le> y + kh div 2) [0 ..< length g]))"

definition morph :: "(pixel \<Rightarrow> pixel \<Rightarrow> pixel) \<Rightarrow> pixel \<Rightarrow> gray \<Rightarrow> gray \<Rightarrow> gray" where
  "morph f e0 kern g =
     map (\<lambda>y. map (\<lambda>x. fold f (window g (fst (shape kern)) (snd (shape kern)) y x) e0)
                   [0 ..< length (g ! y)])
         [0 ..< length g]"

definition sim_dilate :: "gray \<Rightarrow> gray \<Rightarrow> nat \<Rightarrow> py_error + gray" where
  "sim_dilate g kern iterations = Inr ((morph max 0 kern ^^ iterations) g)"

definition sim_erode :: "gray \<Rightarrow> gray \<Rightarrow> nat \<Rightarrow> py_error + gray" where
  "sim_erode g kern iterations = Inr ((morph min 255 kern ^^ iterations) g)"

definition all_zero :: "gray \<Rightarrow> bool" where
  "all_zero g = (\<forall>row \<in> set g. \<forall>p \<in> set row. p = 0)"

text \<open>The coordinates \<open>(x, y)\<close> of the set pixels of a mask.\<close>

definition set_pixels :: "gray \<Rightarrow> point list" where
  "set_pixels g =
     concat (map (\<lambda>y. map (\<lambda>x. (int x, int y))
                          (filter (\<lambda>x. g ! y ! x \<noteq> 0) [0 ..< length (g ! y)]))
                 [0 ..< length g])"

definition sim_findContours :: "gray \<Rightarrow> retr_mode \<Rightarrow> approx_mode \<Rightarrow> py_error + contour list" where
  "sim_findContours g mode approx =
     (case set_pixels g of
        [] \<Rightarrow> Inr []
      | p # ps \<Rightarrow>
          (let xs = map fst (p # ps); ys = map snd (p # ps);
               x0 = fold min xs (fst p); x1 = fold max xs (fst p);
               y0 = fold min ys (snd p); y1 = fold max ys (snd p)
           in Inr [[(x0, y0), (x0, y1), (x1, y1), (x1, y0)]]))"

text \<open>The area enclosed by a polygon (Green's formula), as \<^verbatim>\<open>cv2.contourArea\<close> computes it.\<close>

fun shoelace :: "point \<Rightarrow> point list \<Rightarrow> int" where
  "shoelace first [] = 0"
| "shoelace first [p] = fst p * snd first - fst first * snd p"
| "shoelace first (p # q # ps) = fst p * snd q - fst q * snd p + shoelace first (q # ps)"

definition sim_contourArea :: "contour \<Rightarrow> py_error + real" where
  "sim_contourArea c =
     (case c of [] \<Rightarrow> Inr 0 | p # ps \<Rightarrow> Inr (real_of_int \<bar>shoelace p (p # ps)\<bar> / 2))"

definition sim_boundingRect :: "contour \<Rightarrow> py_error + (int \<times> int \<times> int \<times> int)" where
  "sim_boundingRect c =
     (case c of
        [] \<Rightarrow> Inr (0, 0, 0, 0)
      | p # ps \<Rightarrow>
          (let xs = map fst (p # ps); ys = map snd (p # ps);
               x0 = fold min xs (fst p); x1 = fold max xs (fst p);
               y0 = fold min ys (snd p); y1 = fold max ys (snd p)
           in Inr (x0, y0, x1 - x0 + 1, y1 - y0 + 1)))"

text \<open>A colour component, saturated to a byte.\<close>

definition saturate :: "int \<Rightarrow> pixel" where
  "saturate v = (if v < 0 then 0 else if 255 < v then 255 else of_int v)"

definition on_outline :: "point \<Rightarrow> point \<Rightarrow> int \<Rightarrow> int \<Rightarrow> int \<Rightarrow> bool" where
  "on_outline pt1 pt2 thickness x y =
     (fst pt1 \<le> x \<and> x \<le> fst pt2 \<and> snd pt1 \<le> y \<and> y \<le> snd pt2 \<and>
      (thickness < 0 \<or> x < fst pt1 + thickness \<or> fst pt2 - thickness < x \<or>
       y < snd pt1 + thickness \<or> snd pt2 - thickness < y))"

definition sim_rectangle ::
  "image \<Rightarrow> point \<Rightarrow> point \<Rightarrow> int list \<Rightarrow> int \<Rightarrow> py_error + image" where
  "sim_rectangle img pt1 pt2 color thickness =
     (if 4 < length color \<or> color = [] \<or> 32767 < thickness then Inl CvError
      else
        (let c = map saturate color @ [0, 0];
             px = (c ! 0, c ! 1, c ! 2)
         in Inr (map (\<lambda>y. map (\<lambda>x. if on_outline pt1 pt2 thickness (int x) (int y) then px
                                      else img ! y ! x)
                                [0 ..< length (img ! y)])
                      [0 ..< length img])))"

text \<open>Stand-in for the JPEG encoder: it fails on an empty image and otherwise lists the bytes.\<close>

definition sim_imencode :: "string \<Rightarrow> image \<Rightarrow> py_error + bytes" where
  "sim_imencode ext img =
     (if empty_array img then Inl CvError
      else Inr (concat (map (\<lambda>row. concat (map (\<lambda>p. case p of (b, g, r) \<Rightarrow> [b, g, r]) row)) img)))"

definition sim_cv2 :: cv2 where
  "sim_cv2 =
     \<lparr>cvtColor = sim_cvtColor, GaussianBlur = sim_GaussianBlur, absdiff = sim_absdiff,
      threshold_cv = sim_threshold, dilate = sim_dilate, erode = sim_erode,
      findContours = sim_findContours, contourArea = sim_contourArea,
      boundingRect = sim_boundingRect, rectangle = sim_rectangle, imencode = sim_imencode\<rparr>"

text \<open>
  Concrete inputs: frames of one colour, two and three pixels square, and a freshly
  constructed \<^verbatim>\<open>CameraSystem\<close> with the default configuration.
\<close>

definition dark2 :: image where
  "dark2 = [[(10, 20, 30), (10, 20, 30)], [(10, 20, 30), (10, 20, 30)]]"

definition dark3 :: image where
  "dark3 = [[(10, 20, 30), (10, 20, 30), (10, 20, 30)],
            [(10, 20, 30), (10, 20, 30), (10, 20, 30)],
            [(10, 20, 30), (10, 20, 30), (10, 20, 30)]]"

definition bright3 :: image where
  "bright3 = [[(200, 200, 200), (200, 200, 200), (200, 200, 200)],
              [(200, 200, 200), (200, 200, 200), (200, 200, 200)],
              [(200, 200, 200), (200, 200, 200), (200, 200, 200)]]"

definition init_system :: camera_system where
  "init_system =
     \<lparr>config = default_config, prev_frames = Map.empty, camera_status = Map.empty,
      last_notification = 0, mjpeg_streams = Map.empty\<rparr>"

definition init_world :: "store \<Rightarrow> world" where
  "init_world h = \<lparr>heap = h, sys = init_system, bot_calls = [], io_log = []\<rparr>"

text \<open>Two alert attempts in a row, as two motion events cause them, in each revision.\<close>

definition alert_twice ::
  "cv2 \<Rightarrow> alert_env \<Rightarrow> alert_env \<Rightarrow> cam_id \<Rightarrow> ref \<Rightarrow> world \<Rightarrow> world" where
  "alert_twice lib e1 e2 cam frame w =
     snd (send_alert lib e2 cam frame (snd (send_alert lib e1 cam frame w)))"

definition alert_twice_v2 ::
  "(string \<Rightarrow> image \<Rightarrow> py_error + bytes option) \<Rightarrow> alert_env \<Rightarrow> alert_env \<Rightarrow> cam_id \<Rightarrow> image
     \<Rightarrow> world_v2 \<Rightarrow> world_v2" where
  "alert_twice_v2 imwrite e1 e2 cam frame w =
     snd (send_alert_v2 imwrite e2 cam frame (snd (send_alert_v2 imwrite e1 cam frame w)))"

text \<open>A transport that delivers every photo, one that rejects every photo, at a given time.\<close>

definition env_ok :: "real \<Rightarrow> alert_env" where
  "env_ok t = \<lparr>time_now = t, send_photo = (\<lambda>m. Inr ())\<rparr>"

definition env_down :: "real \<Rightarrow> alert_env" where
  "env_down t = \<lparr>time_now = t, send_photo = (\<lambda>m. Inl TelegramError)\<rparr>"

text \<open>
  Concrete inputs for the older revision: a freshly constructed \<^verbatim>\<open>CameraSystem\<close>, a world
  with nothing written or sent yet, and an \<^verbatim>\<open>imwrite\<close> that writes the stand-in encoding.
\<close>

definition init_system_v2 :: camera_system_v2 where
  "init_system_v2 =
     \<lparr>config_v2 = default_config, prev_frames_v2 = Map.empty, camera_status_v2 = Map.empty,
      last_notification_v2 = 0\<rparr>"

definition init_world_v2 :: world_v2 where
  "init_world_v2 =
     \<lparr>system = init_system_v2, saved = [], files = Map.empty, bot_calls_v2 = [], replies = []\<rparr>"

definition sim_imwrite :: "string \<Rightarrow> image \<Rightarrow> py_error + bytes option" where
  "sim_imwrite path img =
     (case sim_imencode path img of Inl e \<Rightarrow> Inl e | Inr b \<Rightarrow> Inr (Some b))"

text \<open>
  A world of the older revision in which the camera \<^verbatim>\<open>cam1\<close> is configured, was found
  reachable, and has a reference frame; the administrator's chat is 42.
\<close>

definition cam1_data :: cam_data where
  "cam1_data = \<lparr>url = ''http://10.0.0.5/snap.jpg'', user = '''', password = ''''\<rparr>"

definition one_camera_world_v2 :: world_v2 where
  "one_camera_world_v2 =
     \<lparr>system =
        \<lparr>config_v2 = default_config\<lparr>admin_chat_id := ''42'', cameras := [''cam1'' \<mapsto> cam1_data]\<rparr>,
         prev_frames_v2 = [''cam1'' \<mapsto> dark2],
         camera_status_v2 = [''cam1'' \<mapsto> True],
         last_notification_v2 = 0\<rparr>,
      saved = [], files = Map.empty, bot_calls_v2 = [], replies = []\<rparr>"

text \<open>
  What the theorems on consecutive frames assume of the library. \<open>absdiff_checks_shape\<close>:
  \<^verbatim>\<open>cv2.absdiff\<close> raises for two arrays of different shape (an array of a single element
  aside, which OpenCV takes for a scalar). \<open>blank_preserving\<close>: the difference of an array
  with itself is zero everywhere, and binarisation, dilation, erosion and contour
  extraction turn an array that is zero everywhere into one that is zero everywhere, and
  finally into no contour, whenever they return at all.
\<close>

definition absdiff_checks_shape :: "cv2 \<Rightarrow> bool" where
  "absdiff_checks_shape lib =
     (\<forall>a b. shape a \<noteq> shape b \<and> shape a \<noteq> (1, 1) \<and> shape b \<noteq> (1, 1)
             \<longrightarrow> (\<exists>e. absdiff lib a b = Inl e))"

definition blank_preserving :: "cv2 \<Rightarrow> bool" where
  "blank_preserving lib =
     ((\<forall>a z. absdiff lib a a = Inr z \<longrightarrow> all_zero z) \<and>
      (\<forall>z t. all_zero z \<and> threshold_cv lib z 25 255 THRESH_BINARY = Inr t \<longrightarrow> all_zero t) \<and>
      (\<forall>z k n t. all_zero z \<and> dilate lib z k n = Inr t \<longrightarrow> all_zero t) \<and>
      (\<forall>z k n t. all_zero z \<and> erode lib z k n = Inr t \<longrightarrow> all_zero t) \<and>
      (\<forall>z cs. all_zero z \<and> findContours lib z RETR_EXTERNAL CHAIN_APPROX_SIMPLE = Inr cs
               \<longrightarrow> cs = []))"

text \<open>
  A world in which the camera \<^verbatim>\<open>cam1\<close> already has the reference \<open>r\<close>, with the store \<open>h\<close>.
  The minimum contour area is lowered to 2, so that a change filling a frame of three by
  three pixels, whose contour encloses an area of 4, counts as motion.
\<close>

definition gray2 :: gray where
  "gray2 = [[22, 22], [22, 22]]"

definition gray3 :: gray where
  "gray3 = [[22, 22, 22], [22, 22, 22], [22, 22, 22]]"

definition world_with_reference :: "gray \<Rightarrow> store \<Rightarrow> world" where
  "world_with_reference r h =
     \<lparr>heap = h,
      sys = init_system\<lparr>config := default_config\<lparr>min_contour_area := 2\<rparr>,
                        prev_frames := [''cam1'' \<mapsto> r]\<rparr>,
      bot_calls = [], io_log = []\<rparr>"

definition gray200 :: gray where
  "gray200 = [[200, 200, 200], [200, 200, 200], [200, 200, 200]]"

definition outlined3 :: image where
  "outlined3 = [[(0, 255, 0), (0, 255, 0), (0, 255, 0)],
                [(0, 255, 0), (0, 255, 0), (0, 255, 0)],
                [(0, 255, 0), (0, 255, 0), (0, 255, 0)]]"

text \<open>
  For the claims on streams: the number of calls of \<^verbatim>\<open>cv2.VideoCapture\<close> among some
  events, and the case that a new connection gives no frame (the constructor raises, the
  stream is not open, or its first read fails).
\<close>

fun is_connect :: "io_event \<Rightarrow> bool" where
  "is_connect (Connect u) = True"
| "is_connect (Read n) = False"
| "is_connect (Release n) = False"

definition reconnects :: "io_event list \<Rightarrow> nat" where
  "reconnects evs = length (filter is_connect evs)"

definition connect_fails :: "camera_io \<Rightarrow> cam_data \<Rightarrow> bool" where
  "connect_fails io cd =
     (case VideoCapture io (url cd) of
        Inl e \<Rightarrow> True
      | Inr st \<Rightarrow> \<not> opened st \<or> fst (stream_read st) = None)"

text \<open>
  A stand-in for the outside world of a fetch: no camera answers, and the path of a URL of
  the form \<^verbatim>\<open>scheme://host/path\<close> is its text from the third slash on. The camera
  \<^verbatim>\<open>cam1\<close> streams MJPEG; in \<open>stalled_world\<close> it has an open handle with nothing to read.
\<close>

fun from_slash :: "nat \<Rightarrow> string \<Rightarrow> string" where
  "from_slash n [] = []"
| "from_slash n (c # cs) =
     (if c = CHR ''/'' then (if n \<le> 1 then c # cs else from_slash (n - 1) cs)
      else from_slash n cs)"

definition dead_io :: camera_io where
  "dead_io =
     \<lparr>http_get = (\<lambda>cd t. Inl RequestError), imdecode = (\<lambda>b. Inr None),
      VideoCapture = (\<lambda>u. Inl CvError), urlparse_path = from_slash 3\<rparr>"

definition mjpeg_cam :: cam_data where
  "mjpeg_cam = \<lparr>url = ''http://10.0.0.7/Video.MJPG'', user = '''', password = ''''\<rparr>"

definition stalled_world :: world where
  "stalled_world =
     \<lparr>heap = [],
      sys = init_system\<lparr>mjpeg_streams := [''cam1'' \<mapsto> \<lparr>sid = 1, opened = True, pending = []\<rparr>]\<rparr>,
      bot_calls = [], io_log = []\<rparr>"

section \<open>Verified properties\<close>

subsection \<open>The first frame of a camera\<close>

lemma blurred_gray_dark2: "blurred_gray sim_cv2 dark2 = Inr [[22, 22], [22, 22]]"
  by (simp add: blurred_gray_def sim_cv2_def sim_cvtColor_def sim_GaussianBlur_def
      empty_array_def shape_def luma_def dark2_def)

text \<open>
  Claim C1. When the camera has no stored reference frame, \<open>calculate_motion\<close> returns
  \<^verbatim>\<open>False\<close> together with the very frame it was given, whatever the frame is; and when the
  blurred grayscale version \<open>g\<close> of the frame exists (the conversion and the blur return),
  the only change to the world is that \<open>g\<close> is now the camera's reference.
\<close>

theorem calculate_motion_first_frame:
  assumes "prev_frames (sys w) cam = None"
  shows "fst (calculate_motion lib frame cam w) = (False, frame) \<and>
         (\<forall>g. blurred_gray lib (heap w ! frame) = Inr g \<longrightarrow>
              snd (calculate_motion lib frame cam w) =
                w\<lparr>sys := (sys w)\<lparr>prev_frames := (prev_frames (sys w))(cam \<mapsto> g)\<rparr>\<rparr>)"
  using assms
  by (simp add: calculate_motion_def calculate_motion_try_def split: sum.splits)

theorem calculate_motion_first_frame_witness:
  "prev_frames (sys (init_world [dark2])) ''cam1'' = None \<and>
   fst (calculate_motion sim_cv2 0 ''cam1'' (init_world [dark2])) = (False, 0) \<and>
   prev_frames (sys (snd (calculate_motion sim_cv2 0 ''cam1'' (init_world [dark2])))) ''cam1''
     = Some [[22, 22], [22, 22]] \<and>
   heap (snd (calculate_motion sim_cv2 0 ''cam1'' (init_world [dark2]))) = [dark2]"
proof -
  have h: "prev_frames (sys (init_world [dark2])) ''cam1'' = None"
    by (simp add: init_world_def init_system_def)
  have g: "blurred_gray sim_cv2 (heap (init_world [dark2]) ! 0) = Inr [[22, 22], [22, 22]]"
    by (simp add: init_world_def blurred_gray_dark2)
  from calculate_motion_first_frame [OF h, of sim_cv2 0] g h show ?thesis
    by (simp add: init_world_def)
qed

subsection \<open>The cooldown\<close>

lemma send_alert_skip:
  "time_now env - last_notification (sys w) < cooldown (config (sys w)) \<Longrightarrow>
     send_alert lib env cam frame w = (PyNone, w)"
  by (simp add: send_alert_def)

lemma send_alert_delivers:
  assumes "\<not> time_now env - last_notification (sys w) < cooldown (config (sys w))"
    and "imencode lib ''.jpg'' (heap w ! frame) = Inr b"
    and "\<forall>m. send_photo env m = Inr ()"
  shows "snd (send_alert lib env cam frame w) =
           w\<lparr>bot_calls := bot_calls w @
                [(\<lparr>chat_id = admin_chat_id (config (sys w)), photo = b, caption_cam = cam\<rparr>, True)],
             sys := (sys w)\<lparr>last_notification := time_now env\<rparr>\<rparr>"
  using assms by (simp add: send_alert_def)

lemma send_alert_v2_skip:
  "time_now env - last_notification_v2 (system w) < cooldown (config_v2 (system w)) \<Longrightarrow>
     send_alert_v2 imwrite env cam img w = (Inr PyNone, w)"
  by (simp add: send_alert_v2_def)

lemma send_alert_v2_delivers:
  assumes "\<not> time_now env - last_notification_v2 (system w) < cooldown (config_v2 (system w))"
    and "imwrite (''alert_'' @ cam @ ''.jpg'') img = Inr (Some b)"
    and "\<forall>m. send_photo env m = Inr ()"
  shows "snd (send_alert_v2 imwrite env cam img w) =
           w\<lparr>files := (files w)(''alert_'' @ cam @ ''.jpg'' := None),
             bot_calls_v2 := bot_calls_v2 w @
                [(\<lparr>chat_id = admin_chat_id (config_v2 (system w)), photo = b, caption_cam = cam\<rparr>, True)],
             system := (system w)\<lparr>last_notification_v2 := time_now env\<rparr>\<rparr>"
  using assms by (simp add: send_alert_v2_def Let_def)

text \<open>
  Claim C2. In both revisions, an alert attempt made while the time since the last
  delivered alert is strictly below the cooldown returns \<^verbatim>\<open>None\<close> (Python's false value;
  \<open>send_alert\<close> has no other result) and leaves the whole world as it was: no call to the
  transport, no new timestamp. Consequently, with a cooldown of 30 seconds and a transport
  that delivers, a first attempt that is itself outside the cooldown followed by a second
  one 10 seconds later delivers exactly one alert, and followed by a second one 31 seconds
  later delivers two.
\<close>

theorem send_alert_cooldown:
  "(time_now env - last_notification (sys w) < cooldown (config (sys w)) \<longrightarrow>
      send_alert lib env cam frame w = (PyNone, w) \<and>
      \<not> truthy (fst (send_alert lib env cam frame w))) \<and>
   (time_now env - last_notification_v2 (system w2) < cooldown (config_v2 (system w2)) \<longrightarrow>
      send_alert_v2 imwrite env cam img w2 = (Inr PyNone, w2)) \<and>
   (cooldown (config (sys w)) = 30 \<and> 30 \<le> t - last_notification (sys w) \<and>
    imencode lib ''.jpg'' (heap w ! frame) = Inr b \<and>
    time_now e1 = t \<and> (\<forall>m. send_photo e1 m = Inr ()) \<and> (\<forall>m. send_photo e2 m = Inr ()) \<longrightarrow>
      (time_now e2 = t + 10 \<longrightarrow>
         delivered (bot_calls (alert_twice lib e1 e2 cam frame w)) = delivered (bot_calls w) + 1) \<and>
      (time_now e2 = t + 31 \<longrightarrow>
         delivered (bot_calls (alert_twice lib e1 e2 cam frame w)) = delivered (bot_calls w) + 2)) \<and>
   (cooldown (config_v2 (system w2)) = 30 \<and> 30 \<le> t - last_notification_v2 (system w2) \<and>
    imwrite (''alert_'' @ cam @ ''.jpg'') img = Inr (Some b) \<and>
    time_now e1 = t \<and> (\<forall>m. send_photo e1 m = Inr ()) \<and> (\<forall>m. send_photo e2 m = Inr ()) \<longrightarrow>
      (time_now e2 = t + 10 \<longrightarrow>
         delivered (bot_calls_v2 (alert_twice_v2 imwrite e1 e2 cam img w2)) =
           delivered (bot_calls_v2 w2) + 1) \<and>
      (time_now e2 = t + 31 \<longrightarrow>
         delivered (bot_calls_v2 (alert_twice_v2 imwrite e1 e2 cam img w2)) =
           delivered (bot_calls_v2 w2) + 2))"
proof (intro conjI impI)
  assume "time_now env - last_notification (sys w) < cooldown (config (sys w))"
  then show "send_alert lib env cam frame w = (PyNone, w)" by (rule send_alert_skip)
  then show "\<not> truthy (fst (send_alert lib env cam frame w))" by simp
next
  assume "time_now env - last_notification_v2 (system w2) < cooldown (config_v2 (system w2))"
  then show "send_alert_v2 imwrite env cam img w2 = (Inr PyNone, w2)"
    by (rule send_alert_v2_skip)
next
  assume a: "cooldown (config (sys w)) = 30 \<and> 30 \<le> t - last_notification (sys w) \<and>
    imencode lib ''.jpg'' (heap w ! frame) = Inr b \<and>
    time_now e1 = t \<and> (\<forall>m. send_photo e1 m = Inr ()) \<and> (\<forall>m. send_photo e2 m = Inr ())"
  then have first: "snd (send_alert lib e1 cam frame w) =
      w\<lparr>bot_calls := bot_calls w @
           [(\<lparr>chat_id = admin_chat_id (config (sys w)), photo = b, caption_cam = cam\<rparr>, True)],
        sys := (sys w)\<lparr>last_notification := t\<rparr>\<rparr>"
    using send_alert_delivers [of e1 w lib frame b cam] by simp
  {
    assume "time_now e2 = t + 10"
    with a first show "delivered (bot_calls (alert_twice lib e1 e2 cam frame w)) =
        delivered (bot_calls w) + 1"
      by (simp add: alert_twice_def send_alert_skip delivered_def)
  }
  {
    assume "time_now e2 = t + 31"
    with a first show "delivered (bot_calls (alert_twice lib e1 e2 cam frame w)) =
        delivered (bot_calls w) + 2"
      using send_alert_delivers [of e2 "snd (send_alert lib e1 cam frame w)" lib frame b cam]
      by (simp add: alert_twice_def delivered_def)
  }
next
  assume a: "cooldown (config_v2 (system w2)) = 30 \<and> 30 \<le> t - last_notification_v2 (system w2) \<and>
    imwrite (''alert_'' @ cam @ ''.jpg'') img = Inr (Some b) \<and>
    time_now e1 = t \<and> (\<forall>m. send_photo e1 m = Inr ()) \<and> (\<forall>m. send_photo e2 m = Inr ())"
  then have first: "snd (send_alert_v2 imwrite e1 cam img w2) =
      w2\<lparr>files := (files w2)(''alert_'' @ cam @ ''.jpg'' := None),
         bot_calls_v2 := bot_calls_v2 w2 @
           [(\<lparr>chat_id = admin_chat_id (config_v2 (system w2)), photo = b, caption_cam = cam\<rparr>, True)],
         system := (system w2)\<lparr>last_notification_v2 := t\<rparr>\<rparr>"
    using send_alert_v2_delivers [of e1 w2 imwrite cam img b] by simp
  {
    assume "time_now e2 = t + 10"
    with a first show "delivered (bot_calls_v2 (alert_twice_v2 imwrite e1 e2 cam img w2)) =
        delivered (bot_calls_v2 w2) + 1"
      by (simp add: alert_twice_v2_def send_alert_v2_skip delivered_def)
  }
  {
    assume "time_now e2 = t + 31"
    with a first show "delivered (bot_calls_v2 (alert_twice_v2 imwrite e1 e2 cam img w2)) =
        delivered (bot_calls_v2 w2) + 2"
      using send_alert_v2_delivers [of e2 "snd (send_alert_v2 imwrite e1 cam img w2)" imwrite cam img b]
      by (simp add: alert_twice_v2_def delivered_def)
  }
qed

lemma imencode_dark2:
  "imencode sim_cv2 ''.jpg'' dark2 = Inr [10, 20, 30, 10, 20, 30, 10, 20, 30, 10, 20, 30]"
  by (simp add: sim_cv2_def sim_imencode_def empty_array_def shape_def dark2_def)

lemma imwrite_dark2:
  "sim_imwrite p dark2 = Inr (Some [10, 20, 30, 10, 20, 30, 10, 20, 30, 10, 20, 30])"
  by (simp add: sim_imwrite_def sim_imencode_def empty_array_def shape_def dark2_def)

theorem send_alert_cooldown_witness:
  "time_now (env_ok 10) - last_notification (sys (init_world [dark2]))
     < cooldown (config (sys (init_world [dark2]))) \<and>
   send_alert sim_cv2 (env_ok 10) ''cam1'' 0 (init_world [dark2]) = (PyNone, init_world [dark2]) \<and>
   send_alert_v2 sim_imwrite (env_ok 10) ''cam1'' dark2 init_world_v2 = (Inr PyNone, init_world_v2) \<and>
   delivered (bot_calls (alert_twice sim_cv2 (env_ok 100) (env_ok 110) ''cam1'' 0 (init_world [dark2]))) = 1 \<and>
   delivered (bot_calls (alert_twice sim_cv2 (env_ok 100) (env_ok 131) ''cam1'' 0 (init_world [dark2]))) = 2 \<and>
   delivered (bot_calls_v2 (alert_twice_v2 sim_imwrite (env_ok 100) (env_ok 110) ''cam1'' dark2 init_world_v2)) = 1 \<and>
   delivered (bot_calls_v2 (alert_twice_v2 sim_imwrite (env_ok 100) (env_ok 131) ''cam1'' dark2 init_world_v2)) = 2"
proof -
  let ?b = "[10, 20, 30, 10, 20, 30, 10, 20, 30, 10, 20, 30] :: bytes"
  have enc: "imencode sim_cv2 ''.jpg'' (heap (init_world [dark2]) ! 0) = Inr ?b"
    by (simp add: init_world_def imencode_dark2)
  have wr: "sim_imwrite (''alert_'' @ ''cam1'' @ ''.jpg'') dark2 = Inr (Some ?b)"
    by (rule imwrite_dark2)
  note facts = init_world_def init_system_def init_world_v2_def init_system_v2_def
    default_config_def env_ok_def delivered_def
  have skip: "time_now (env_ok 10) - last_notification (sys (init_world [dark2]))
     < cooldown (config (sys (init_world [dark2])))"
    by (simp add: facts)
  have skip2: "time_now (env_ok 10) - last_notification_v2 (system init_world_v2)
     < cooldown (config_v2 (system init_world_v2))"
    by (simp add: facts)
  from send_alert_cooldown [where env = "env_ok 10" and w = "init_world [dark2]"
      and ?w2.0 = init_world_v2 and lib = sim_cv2 and cam = "''cam1''" and frame = 0
      and imwrite = sim_imwrite and img = dark2 and t = 100 and b = ?b
      and ?e1.0 = "env_ok 100" and ?e2.0 = "env_ok 110"]
    skip skip2 enc wr
  have a: "send_alert sim_cv2 (env_ok 10) ''cam1'' 0 (init_world [dark2]) = (PyNone, init_world [dark2])"
    and b: "send_alert_v2 sim_imwrite (env_ok 10) ''cam1'' dark2 init_world_v2 = (Inr PyNone, init_world_v2)"
    and c: "delivered (bot_calls (alert_twice sim_cv2 (env_ok 100) (env_ok 110) ''cam1'' 0 (init_world [dark2]))) = 1"
    and d: "delivered (bot_calls_v2 (alert_twice_v2 sim_imwrite (env_ok 100) (env_ok 110) ''cam1'' dark2 init_world_v2)) = 1"
    by (simp_all add: facts)
  from send_alert_cooldown [where env = "env_ok 10" and w = "init_world [dark2]"
      and ?w2.0 = init_world_v2 and lib = sim_cv2 and cam = "''cam1''" and frame = 0
      and imwrite = sim_imwrite and img = dark2 and t = 100 and b = ?b
      and ?e1.0 = "env_ok 100" and ?e2.0 = "env_ok 131"]
    enc wr
  have e: "delivered (bot_calls (alert_twice sim_cv2 (env_ok 100) (env_ok 131) ''cam1'' 0 (init_world [dark2]))) = 2"
    and f: "delivered (bot_calls_v2 (alert_twice_v2 sim_imwrite (env_ok 100) (env_ok 131) ''cam1'' dark2 init_world_v2)) = 2"
    by (simp_all add: facts)
  from skip a b c d e f show ?thesis by blast
qed

subsection \<open>A failed delivery\<close>

text \<open>
  Claim C3. When the transport fails (every photo handed to \<^verbatim>\<open>bot.send_photo\<close> is answered
  with an exception), \<open>send_alert\<close> returns \<^verbatim>\<open>None\<close>, Python's false value, does not raise,
  and leaves the \<^verbatim>\<open>CameraSystem\<close> object, with its last-alert timestamp, exactly as it was,
  and nothing counts as delivered: the cooldown window is not consumed. Conversely, the
  timestamp changes only when a photo was handed to the transport and delivered, and then
  it becomes the time of this attempt.
\<close>

theorem send_alert_failed_delivery:
  "((\<forall>m. \<exists>e. send_photo env m = Inl e) \<longrightarrow>
      fst (send_alert lib env cam frame w) = PyNone \<and>
      \<not> truthy (fst (send_alert lib env cam frame w)) \<and>
      sys (snd (send_alert lib env cam frame w)) = sys w \<and>
      delivered (bot_calls (snd (send_alert lib env cam frame w))) = delivered (bot_calls w)) \<and>
   (last_notification (sys (snd (send_alert lib env cam frame w))) \<noteq> last_notification (sys w) \<longrightarrow>
      (\<exists>m. send_photo env m = Inr () \<and>
           bot_calls (snd (send_alert lib env cam frame w)) = bot_calls w @ [(m, True)]) \<and>
      last_notification (sys (snd (send_alert lib env cam frame w))) = time_now env)"
proof (intro conjI impI)
  assume down: "\<forall>m. \<exists>e. send_photo env m = Inl e"
  show "fst (send_alert lib env cam frame w) = PyNone"
    by (simp add: send_alert_def Let_def split: sum.splits)
  then show "\<not> truthy (fst (send_alert lib env cam frame w))" by simp
  have never: "send_photo env m \<noteq> Inr u" for m u
  proof -
    from down obtain e where "send_photo env m = Inl e" by blast
    then show ?thesis by simp
  qed
  show "sys (snd (send_alert lib env cam frame w)) = sys w"
    by (simp add: send_alert_def Let_def never split: sum.splits)
  show "delivered (bot_calls (snd (send_alert lib env cam frame w))) = delivered (bot_calls w)"
    by (simp add: send_alert_def Let_def delivered_def never split: sum.splits)
next
  assume changed:
    "last_notification (sys (snd (send_alert lib env cam frame w))) \<noteq> last_notification (sys w)"
  then show "\<exists>m. send_photo env m = Inr () \<and>
      bot_calls (snd (send_alert lib env cam frame w)) = bot_calls w @ [(m, True)]"
    by (auto simp add: send_alert_def Let_def split: sum.splits if_splits)
  from changed show "last_notification (sys (snd (send_alert lib env cam frame w))) = time_now env"
    by (auto simp add: send_alert_def Let_def split: sum.splits if_splits)
qed

theorem send_alert_failed_delivery_witness:
  "(\<forall>m. \<exists>e. send_photo (env_down 100) m = Inl e) \<and>
   fst (send_alert sim_cv2 (env_down 100) ''cam1'' 0 (init_world [dark2])) = PyNone \<and>
   last_notification (sys (snd (send_alert sim_cv2 (env_down 100) ''cam1'' 0 (init_world [dark2])))) = 0 \<and>
   delivered (bot_calls (snd (send_alert sim_cv2 (env_down 100) ''cam1'' 0 (init_world [dark2])))) = 0 \<and>
   last_notification (sys (snd (send_alert sim_cv2 (env_ok 100) ''cam1'' 0 (init_world [dark2]))))
     \<noteq> last_notification (sys (init_world [dark2])) \<and>
   last_notification (sys (snd (send_alert sim_cv2 (env_ok 100) ''cam1'' 0 (init_world [dark2])))) = 100 \<and>
   (\<exists>m. bot_calls (snd (send_alert sim_cv2 (env_ok 100) ''cam1'' 0 (init_world [dark2]))) = [(m, True)])"
proof -
  note facts = init_world_def init_system_def default_config_def env_ok_def env_down_def
    delivered_def
  have down: "\<forall>m. \<exists>e. send_photo (env_down 100) m = Inl e"
    by (simp add: env_down_def)
  have changed:
    "last_notification (sys (snd (send_alert sim_cv2 (env_ok 100) ''cam1'' 0 (init_world [dark2]))))
       \<noteq> last_notification (sys (init_world [dark2]))"
    by (simp add: send_alert_def Let_def imencode_dark2 facts)
  from send_alert_failed_delivery [of "env_down 100" sim_cv2 "''cam1''" 0 "init_world [dark2]"] down
  have a: "fst (send_alert sim_cv2 (env_down 100) ''cam1'' 0 (init_world [dark2])) = PyNone"
    and b: "last_notification (sys (snd (send_alert sim_cv2 (env_down 100) ''cam1'' 0 (init_world [dark2])))) = 0"
    and c: "delivered (bot_calls (snd (send_alert sim_cv2 (env_down 100) ''cam1'' 0 (init_world [dark2])))) = 0"
    by (simp_all add: facts)
  from send_alert_failed_delivery [of "env_ok 100" sim_cv2 "''cam1''" 0 "init_world [dark2]"] changed
  have d: "last_notification (sys (snd (send_alert sim_cv2 (env_ok 100) ''cam1'' 0 (init_world [dark2])))) = 100"
    and e: "\<exists>m. bot_calls (snd (send_alert sim_cv2 (env_ok 100) ''cam1'' 0 (init_world [dark2]))) = [(m, True)]"
    by (simp_all add: facts)
  from down a b c changed d e show ?thesis by blast
qed

subsection \<open>Setting the sensitivity (\<^verbatim>\<open>tgalert2-stable.py\<close>)\<close>

text \<open>
  Claim C8. \<open>set_sensitivity\<close> on a value outside 1000 to 100000 returns \<^verbatim>\<open>False\<close> and
  leaves the whole world as it was: the stored threshold and the configurations written to
  disk are unchanged. The same holds for text that is no number. On a value inside the
  range, bounds included, it returns \<^verbatim>\<open>True\<close>, the stored configuration is the old one with
  the new threshold, and exactly that configuration is written to disk. In particular 500
  is rejected and 5000 is accepted and written.
\<close>

theorem set_sensitivity_range:
  "(py_int parse v = Inr n \<and> (n < 1000 \<or> 100000 < n) \<longrightarrow>
      set_sensitivity parse v w = (False, w)) \<and>
   ((\<exists>e. py_int parse v = Inl e) \<longrightarrow> set_sensitivity parse v w = (False, w)) \<and>
   (py_int parse v = Inr n \<and> 1000 \<le> n \<and> n \<le> 100000 \<longrightarrow>
      fst (set_sensitivity parse v w) = True \<and>
      threshold (config_v2 (system (snd (set_sensitivity parse v w)))) = n \<and>
      config_v2 (system (snd (set_sensitivity parse v w))) = (config_v2 (system w))\<lparr>threshold := n\<rparr> \<and>
      saved (snd (set_sensitivity parse v w)) = saved w @ [(config_v2 (system w))\<lparr>threshold := n\<rparr>]) \<and>
   set_sensitivity parse (PyInt 500) w = (False, w) \<and>
   fst (set_sensitivity parse (PyInt 5000) w) = True \<and>
   threshold (config_v2 (system (snd (set_sensitivity parse (PyInt 5000) w)))) = 5000 \<and>
   saved (snd (set_sensitivity parse (PyInt 5000) w)) =
     saved w @ [(config_v2 (system w))\<lparr>threshold := 5000\<rparr>]"
  by (auto simp add: set_sensitivity_def save_config_def Let_def)

theorem set_sensitivity_range_witness:
  "py_int (\<lambda>t. None) (PyInt 999) = Inr 999 \<and>
   set_sensitivity (\<lambda>t. None) (PyInt 999) init_world_v2 = (False, init_world_v2) \<and>
   py_int (\<lambda>t. None) (PyInt 100001) = Inr 100001 \<and>
   set_sensitivity (\<lambda>t. None) (PyInt 100001) init_world_v2 = (False, init_world_v2) \<and>
   py_int (\<lambda>t. None) (PyStr ''abc'') = Inl ValueError \<and>
   set_sensitivity (\<lambda>t. None) (PyStr ''abc'') init_world_v2 = (False, init_world_v2) \<and>
   py_int (\<lambda>t. None) (PyInt 1000) = Inr 1000 \<and>
   fst (set_sensitivity (\<lambda>t. None) (PyInt 1000) init_world_v2) = True \<and>
   threshold (config_v2 (system (snd (set_sensitivity (\<lambda>t. None) (PyInt 1000) init_world_v2)))) = 1000 \<and>
   map threshold (saved (snd (set_sensitivity (\<lambda>t. None) (PyInt 1000) init_world_v2))) = [1000] \<and>
   py_int (\<lambda>t. None) (PyInt 100000) = Inr 100000 \<and>
   fst (set_sensitivity (\<lambda>t. None) (PyInt 100000) init_world_v2) = True \<and>
   map threshold (saved (snd (set_sensitivity (\<lambda>t. None) (PyInt 100000) init_world_v2))) = [100000]"
proof -
  note facts = init_world_v2_def init_system_v2_def default_config_def
  from set_sensitivity_range [of "\<lambda>t. None" "PyInt 999" 999 init_world_v2]
  have a: "set_sensitivity (\<lambda>t. None) (PyInt 999) init_world_v2 = (False, init_world_v2)" by simp
  from set_sensitivity_range [of "\<lambda>t. None" "PyInt 100001" 100001 init_world_v2]
  have b: "set_sensitivity (\<lambda>t. None) (PyInt 100001) init_world_v2 = (False, init_world_v2)" by simp
  from set_sensitivity_range [of "\<lambda>t. None" "PyStr ''abc''" 0 init_world_v2]
  have c: "set_sensitivity (\<lambda>t. None) (PyStr ''abc'') init_world_v2 = (False, init_world_v2)" by simp
  from set_sensitivity_range [of "\<lambda>t. None" "PyInt 1000" 1000 init_world_v2]
  have d: "fst (set_sensitivity (\<lambda>t. None) (PyInt 1000) init_world_v2) = True"
    and e: "threshold (config_v2 (system (snd (set_sensitivity (\<lambda>t. None) (PyInt 1000) init_world_v2)))) = 1000"
    and f: "map threshold (saved (snd (set_sensitivity (\<lambda>t. None) (PyInt 1000) init_world_v2))) = [1000]"
    by (simp_all add: facts)
  from set_sensitivity_range [of "\<lambda>t. None" "PyInt 100000" 100000 init_world_v2]
  have g: "fst (set_sensitivity (\<lambda>t. None) (PyInt 100000) init_world_v2) = True"
    and h: "map threshold (saved (snd (set_sensitivity (\<lambda>t. None) (PyInt 100000) init_world_v2))) = [100000]"
    by (simp_all add: facts)
  from a b c d e f g h show ?thesis by simp
qed

subsection \<open>Removing a camera (\<^verbatim>\<open>tgalert2-stable.py\<close>)\<close>

text \<open>
  Claim C6 as stated fails: \<open>remove_camera\<close> deletes the configuration and the status entry
  but not the reference frame. After \<^verbatim>\<open>/remove cam1\<close> in a world that satisfies the registry
  invariant, the reference frame of \<^verbatim>\<open>cam1\<close> is still stored although \<^verbatim>\<open>cam1\<close> is no longer
  configured, so the invariant is broken.
\<close>

theorem remove_camera_keeps_reference_frame:
  "registry_inv_v2 (system one_camera_world_v2) \<and>
   cameras (config_v2 (system (remove_camera 42 [''cam1''] one_camera_world_v2))) ''cam1'' = None \<and>
   prev_frames_v2 (system (remove_camera 42 [''cam1''] one_camera_world_v2)) ''cam1'' = Some dark2 \<and>
   \<not> registry_inv_v2 (system (remove_camera 42 [''cam1''] one_camera_world_v2))"
  by (simp add: registry_inv_v2_def remove_camera_def one_camera_world_v2_def save_config_def
      py_str_def Let_def)

text \<open>
  Claim C6, amended. For a command from the administrator's chat, \<^verbatim>\<open>/remove id\<close> deletes
  the camera's configuration and its reachability status together, leaves every other
  camera's configuration and status alone, and writes the new configuration to disk; if the
  id is not configured, the \<^verbatim>\<open>CameraSystem\<close> object and the disk are left as they were. Either
  way, if every id with a status was configured before, the same holds afterwards. (This
  revision has no stream handles.)
\<close>

theorem remove_camera_config_and_status:
  assumes "py_str chat = admin_chat_id (config_v2 (system w))"
  shows
  "(cameras (config_v2 (system w)) cam \<noteq> None \<longrightarrow>
      cameras (config_v2 (system (remove_camera chat (cam # rest) w))) =
        (cameras (config_v2 (system w)))(cam := None) \<and>
      camera_status_v2 (system (remove_camera chat (cam # rest) w)) =
        (camera_status_v2 (system w))(cam := None) \<and>
      saved (remove_camera chat (cam # rest) w) =
        saved w @ [(config_v2 (system w))\<lparr>cameras := (cameras (config_v2 (system w)))(cam := None)\<rparr>]) \<and>
   (cameras (config_v2 (system w)) cam = None \<longrightarrow>
      system (remove_camera chat (cam # rest) w) = system w \<and>
      saved (remove_camera chat (cam # rest) w) = saved w) \<and>
   (dom (camera_status_v2 (system w)) \<subseteq> dom (cameras (config_v2 (system w))) \<longrightarrow>
      dom (camera_status_v2 (system (remove_camera chat (cam # rest) w)))
        \<subseteq> dom (cameras (config_v2 (system (remove_camera chat (cam # rest) w)))))"
  using assms
  by (auto simp add: remove_camera_def save_config_def Let_def fun_upd_idem)

theorem remove_camera_config_and_status_witness:
  "py_str 42 = admin_chat_id (config_v2 (system one_camera_world_v2)) \<and>
   cameras (config_v2 (system one_camera_world_v2)) ''cam1'' \<noteq> None \<and>
   cameras (config_v2 (system (remove_camera 42 [''cam1''] one_camera_world_v2))) ''cam1'' = None \<and>
   camera_status_v2 (system (remove_camera 42 [''cam1''] one_camera_world_v2)) ''cam1'' = None \<and>
   length (saved (remove_camera 42 [''cam1''] one_camera_world_v2)) = 1 \<and>
   cameras (config_v2 (system one_camera_world_v2)) ''cam2'' = None \<and>
   system (remove_camera 42 [''cam2''] one_camera_world_v2) = system one_camera_world_v2 \<and>
   saved (remove_camera 42 [''cam2''] one_camera_world_v2) = [] \<and>
   dom (camera_status_v2 (system one_camera_world_v2))
     \<subseteq> dom (cameras (config_v2 (system one_camera_world_v2))) \<and>
   dom (camera_status_v2 (system (remove_camera 42 [''cam1''] one_camera_world_v2)))
     \<subseteq> dom (cameras (config_v2 (system (remove_camera 42 [''cam1''] one_camera_world_v2))))"
proof -
  have admin: "py_str 42 = admin_chat_id (config_v2 (system one_camera_world_v2))"
    by (simp add: py_str_def one_camera_world_v2_def)
  have present: "cameras (config_v2 (system one_camera_world_v2)) ''cam1'' \<noteq> None"
    and absent: "cameras (config_v2 (system one_camera_world_v2)) ''cam2'' = None"
    and inv: "dom (camera_status_v2 (system one_camera_world_v2))
       \<subseteq> dom (cameras (config_v2 (system one_camera_world_v2)))"
    and nothing_saved: "saved one_camera_world_v2 = []"
    by (simp_all add: one_camera_world_v2_def)
  note r = remove_camera_config_and_status [OF admin, of "''cam1''" "[]"]
  from r present nothing_saved
  have a: "cameras (config_v2 (system (remove_camera 42 [''cam1''] one_camera_world_v2))) ''cam1'' = None"
    and b: "camera_status_v2 (system (remove_camera 42 [''cam1''] one_camera_world_v2)) ''cam1'' = None"
    and c: "length (saved (remove_camera 42 [''cam1''] one_camera_world_v2)) = 1"
    by simp_all
  from r inv
  have d: "dom (camera_status_v2 (system (remove_camera 42 [''cam1''] one_camera_world_v2)))
       \<subseteq> dom (cameras (config_v2 (system (remove_camera 42 [''cam1''] one_camera_world_v2))))"
    by blast
  from remove_camera_config_and_status [OF admin, of "''cam2''" "[]"] absent nothing_saved
  have e: "system (remove_camera 42 [''cam2''] one_camera_world_v2) = system one_camera_world_v2"
    and f: "saved (remove_camera 42 [''cam2''] one_camera_world_v2) = []"
    by simp_all
  from admin present absent inv a b c d e f show ?thesis by blast
qed

subsection \<open>Running the detector on concrete frames\<close>

lemma blurred_gray_dark3: "blurred_gray sim_cv2 dark3 = Inr gray3"
  by (simp add: blurred_gray_def sim_cv2_def sim_cvtColor_def sim_GaussianBlur_def
      empty_array_def shape_def luma_def dark3_def gray3_def)

lemma blurred_gray_bright3: "blurred_gray sim_cv2 bright3 = Inr gray200"
  by (simp add: blurred_gray_def sim_cv2_def sim_cvtColor_def sim_GaussianBlur_def
      empty_array_def shape_def luma_def bright3_def gray200_def)

lemma changed_contours_static: "changed_contours sim_cv2 gray3 gray3 = Inr []"
  by code_simp

lemma changed_contours_bright:
  "changed_contours sim_cv2 gray3 gray200 = Inr [[(0, 0), (0, 2), (2, 2), (2, 0)]]"
  by code_simp

lemma changed_contours_mismatch: "changed_contours sim_cv2 gray2 gray3 = Inl CvError"
  by code_simp

lemma mark_contours_bright:
  "mark_contours sim_cv2 (default_config\<lparr>min_contour_area := 2\<rparr>) (Suc 0)
     [[(0, 0), (0, 2), (2, 2), (2, 0)]] False [bright3, bright3]
   = (Inr True, [bright3, outlined3])"
  by code_simp

lemma world_with_reference_simps:
  "heap (world_with_reference r h) = h"
  "prev_frames (sys (world_with_reference r h)) = [''cam1'' \<mapsto> r]"
  "config (sys (world_with_reference r h)) = default_config\<lparr>min_contour_area := 2\<rparr>"
  by (simp_all add: world_with_reference_def)

lemma try_static:
  "calculate_motion_try sim_cv2 0 ''cam1'' (world_with_reference gray3 [dark3]) =
     (Inr (False, 1),
      (world_with_reference gray3 [dark3])
        \<lparr>heap := [dark3, dark3],
         sys := (sys (world_with_reference gray3 [dark3]))
                  \<lparr>prev_frames := [''cam1'' \<mapsto> gray3]\<rparr>\<rparr>)"
  by (simp add: calculate_motion_try_def world_with_reference_simps blurred_gray_dark3
      changed_contours_static alloc_def)

lemma try_bright:
  "calculate_motion_try sim_cv2 0 ''cam1'' (world_with_reference gray3 [bright3]) =
     (Inr (True, 1),
      (world_with_reference gray3 [bright3])
        \<lparr>heap := [bright3, outlined3],
         sys := (sys (world_with_reference gray3 [bright3]))
                  \<lparr>prev_frames := [''cam1'' \<mapsto> gray200]\<rparr>\<rparr>)"
  by (simp add: calculate_motion_try_def world_with_reference_simps blurred_gray_bright3
      changed_contours_bright alloc_def mark_contours_bright del: mark_contours.simps)

lemma try_mismatch:
  "calculate_motion_try sim_cv2 0 ''cam1'' (world_with_reference gray2 [dark3]) =
     (Inl CvError, world_with_reference gray2 [dark3])"
  by (simp add: calculate_motion_try_def world_with_reference_simps blurred_gray_dark3
      changed_contours_mismatch)

subsection \<open>The store during a detection pass\<close>

lemma mark_contours_store:
  "pf < length h \<Longrightarrow>
     length (snd (mark_contours lib cfg pf cs md h)) = length h \<and>
     (\<forall>r. r \<noteq> pf \<longrightarrow> snd (mark_contours lib cfg pf cs md h) ! r = h ! r)"
proof (induction cs arbitrary: md h)
  case Nil
  then show ?case by simp
next
  case (Cons c cs)
  show ?case
  proof (cases "contourArea lib c")
    case (Inl e)
    then show ?thesis by simp
  next
    case (Inr area)
    show ?thesis
    proof (cases "area < min_contour_area cfg")
      case True
      with Inr Cons show ?thesis by simp
    next
      case big: False
      show ?thesis
      proof (cases "draw_contours cfg")
        case False
        with Inr big Cons show ?thesis by simp
      next
        case True
        show ?thesis
        proof (cases "boundingRect lib c")
          case (Inl e)
          with Inr big True show ?thesis by simp
        next
          case box: (Inr rect)
          obtain x y wd ht where rect: "rect = (x, y, wd, ht)" by (cases rect) auto
          show ?thesis
          proof (cases "rectangle lib (h ! pf) (x, y) (x + wd, y + ht)
                          (contour_color cfg) (contour_thickness cfg)")
            case (Inl e)
            with Inr big True box rect show ?thesis by simp
          next
            case drawn: (Inr img)
            from Cons.prems have "pf < length (h[pf := img])" by simp
            from Cons.IH [OF this, of True] Inr big True box rect drawn
            show ?thesis by simp
          qed
        qed
      qed
    qed
  qed
qed

lemma mark_contours_same_outcome:
  "pf < length h \<Longrightarrow> pf' < length h' \<Longrightarrow> h ! pf = h' ! pf' \<Longrightarrow>
     fst (mark_contours lib cfg pf cs md h) = fst (mark_contours lib cfg pf' cs md h')"
proof (induction cs arbitrary: md h h')
  case Nil
  then show ?case by simp
next
  case (Cons c cs)
  show ?case
  proof (cases "contourArea lib c")
    case (Inl e)
    then show ?thesis by simp
  next
    case (Inr area)
    show ?thesis
    proof (cases "area < min_contour_area cfg")
      case True
      with Inr Cons show ?thesis by simp
    next
      case big: False
      show ?thesis
      proof (cases "draw_contours cfg")
        case False
        with Inr big Cons show ?thesis by simp
      next
        case True
        show ?thesis
        proof (cases "boundingRect lib c")
          case (Inl e)
          with Inr big True show ?thesis by simp
        next
          case box: (Inr rect)
          obtain x y wd ht where rect: "rect = (x, y, wd, ht)" by (cases rect) auto
          show ?thesis
          proof (cases "rectangle lib (h ! pf) (x, y) (x + wd, y + ht)
                          (contour_color cfg) (contour_thickness cfg)")
            case (Inl e)
            with Inr big True box rect Cons.prems show ?thesis by simp
          next
            case drawn: (Inr img)
            from Cons.prems have "pf < length (h[pf := img])" "pf' < length (h'[pf' := img])"
              "h[pf := img] ! pf = h'[pf' := img] ! pf'" by simp_all
            from Cons.IH [OF this, of True] Inr big True box rect drawn Cons.prems
            show ?thesis by simp
          qed
        qed
      qed
    qed
  qed
qed

lemma calculate_motion_try_store:
  assumes "calculate_motion_try lib frame cam w = (res, w')"
  shows "(\<forall>r < length (heap w). heap w' ! r = heap w ! r) \<and>
         (length (heap w') = length (heap w) \<or> length (heap w') = Suc (length (heap w))) \<and>
         length (heap w) \<le> length (heap w') \<and>
         (\<forall>b r. res = Inr (b, r) \<longrightarrow>
            r = frame \<and> heap w' = heap w \<or>
            r = length (heap w) \<and> length (heap w') = Suc (length (heap w)))"
proof (cases "blurred_gray lib (heap w ! frame)")
  case (Inl e)
  with assms show ?thesis by (auto simp add: calculate_motion_try_def)
next
  case g: (Inr gray_img)
  show ?thesis
  proof (cases "prev_frames (sys w) cam")
    case None
    with g assms show ?thesis by (auto simp add: calculate_motion_try_def)
  next
    case prev: (Some prev_gray)
    show ?thesis
    proof (cases "changed_contours lib prev_gray gray_img")
      case (Inl e)
      with g prev assms show ?thesis by (auto simp add: calculate_motion_try_def)
    next
      case cs: (Inr contours)
      let ?h1 = "heap w @ [heap w ! frame]"
      let ?m = "mark_contours lib (config (sys w)) (length (heap w)) contours False ?h1"
      have pf: "length (heap w) < length ?h1" by simp
      note st = mark_contours_store [OF pf, of lib "config (sys w)" contours False]
      have hw': "heap w' = snd ?m"
        using assms g prev cs
        by (auto simp add: calculate_motion_try_def alloc_def split: prod.splits sum.splits)
      have old: "\<forall>r < length (heap w). heap w' ! r = heap w ! r"
        using st hw' by (simp add: nth_append)
      have len: "length (heap w') = Suc (length (heap w))"
        using st hw' by simp
      have res: "\<forall>b r. res = Inr (b, r) \<longrightarrow> r = length (heap w)"
        using assms g prev cs
        by (auto simp add: calculate_motion_try_def alloc_def split: prod.splits sum.splits)
      from old len res show ?thesis by auto
    qed
  qed
qed

subsection \<open>The stand-in library keeps the assumed contract\<close>

lemma sim_absdiff_checks_shape: "absdiff_checks_shape sim_cv2"
  by (simp add: absdiff_checks_shape_def sim_cv2_def sim_absdiff_def)

lemma all_zeroI:
  assumes "\<And>y x. y < length g \<Longrightarrow> x < length (g ! y) \<Longrightarrow> g ! y ! x = 0"
  shows "all_zero g"
  unfolding all_zero_def
proof (intro ballI)
  fix row p assume "row \<in> set g" and "p \<in> set row"
  then obtain y x where "y < length g" "row = g ! y" "x < length row" "p = row ! x"
    by (metis in_set_conv_nth)
  with assms show "p = 0" by simp
qed

lemma all_zeroD:
  assumes "all_zero g" and "y < length g" and "x < length (g ! y)"
  shows "g ! y ! x = 0"
proof -
  from assms(2) have "g ! y \<in> set g" by simp
  moreover from assms(3) have "g ! y ! x \<in> set (g ! y)" by simp
  ultimately show ?thesis using assms(1) unfolding all_zero_def by blast
qed

lemma fold_max_zero: "\<forall>p \<in> set xs. p = 0 \<Longrightarrow> fold max xs (0 :: pixel) = 0"
  by (induction xs) simp_all

lemma fold_min_zero: "\<forall>p \<in> set xs. p = 0 \<Longrightarrow> xs \<noteq> [] \<Longrightarrow> fold min xs (e :: pixel) = 0"
proof (induction xs arbitrary: e)
  case Nil
  then show ?case by simp
next
  case (Cons x xs)
  then have x: "x = 0" by simp
  show ?case
  proof (cases "xs = []")
    case True
    with x show ?thesis by simp
  next
    case False
    with Cons x show ?thesis by simp
  qed
qed

lemma window_mem:
  assumes "p \<in> set (window g kh kw y x)"
  shows "\<exists>y' x'. y' < length g \<and> x' < length (g ! y') \<and> p = g ! y' ! x'"
  using assms unfolding window_def by auto

lemma window_centre:
  assumes "y < length g" and "x < length (g ! y)"
  shows "g ! y ! x \<in> set (window g kh kw y x)"
  using assms unfolding window_def by auto

lemma window_zero:
  assumes "all_zero g"
  shows "\<forall>p \<in> set (window g kh kw y x). p = 0"
proof
  fix p assume "p \<in> set (window g kh kw y x)"
  then obtain y' x' where "y' < length g" and "x' < length (g ! y')" and "p = g ! y' ! x'"
    using window_mem by blast
  with assms show "p = 0" by (simp add: all_zeroD)
qed

lemma morph_nth:
  "length (morph f e k g) = length g"
  "y < length g \<Longrightarrow> length (morph f e k g ! y) = length (g ! y)"
  "y < length g \<Longrightarrow> x < length (g ! y) \<Longrightarrow>
     morph f e k g ! y ! x = fold f (window g (fst (shape k)) (snd (shape k)) y x) e"
  by (simp_all add: morph_def)

lemma morph_max_zero:
  assumes "all_zero g"
  shows "all_zero (morph max 0 k g)"
proof (rule all_zeroI)
  fix y x assume "y < length (morph max 0 k g)" and "x < length (morph max 0 k g ! y)"
  then have y: "y < length g" and x: "x < length (g ! y)" by (simp_all add: morph_nth)
  from y x have "morph max 0 k g ! y ! x = fold max (window g (fst (shape k)) (snd (shape k)) y x) 0"
    by (rule morph_nth(3))
  also have "\<dots> = 0" by (rule fold_max_zero) (rule window_zero [OF assms])
  finally show "morph max 0 k g ! y ! x = 0" .
qed

lemma morph_min_zero:
  assumes "all_zero g"
  shows "all_zero (morph min 255 k g)"
proof (rule all_zeroI)
  fix y x assume "y < length (morph min 255 k g)" and "x < length (morph min 255 k g ! y)"
  then have y: "y < length g" and x: "x < length (g ! y)" by (simp_all add: morph_nth)
  have "g ! y ! x \<in> set (window g (fst (shape k)) (snd (shape k)) y x)"
    using y x by (rule window_centre)
  then have ne: "window g (fst (shape k)) (snd (shape k)) y x \<noteq> []"
    by (rule contrapos_pn) simp
  from y x have "morph min 255 k g ! y ! x = fold min (window g (fst (shape k)) (snd (shape k)) y x) 255"
    by (rule morph_nth(3))
  also have "\<dots> = 0" by (rule fold_min_zero) (rule window_zero [OF assms], rule ne)
  finally show "morph min 255 k g ! y ! x = 0" .
qed

lemma funpow_zero:
  assumes "\<And>g. all_zero g \<Longrightarrow> all_zero (f g)"
  shows "all_zero g \<Longrightarrow> all_zero ((f ^^ n) g)"
  by (induction n) (simp_all add: assms)

lemma set_pixels_zero:
  assumes "all_zero g"
  shows "set_pixels g = []"
proof -
  have "filter (\<lambda>x. g ! y ! x \<noteq> 0) [0 ..< length (g ! y)] = []" if "y < length g" for y
    using that all_zeroD [OF assms] by (simp add: filter_empty_conv)
  then have "map (\<lambda>y. map (\<lambda>x. (int x, int y))
                (filter (\<lambda>x. g ! y ! x \<noteq> 0) [0 ..< length (g ! y)])) [0 ..< length g]
             = map (\<lambda>y. []) [0 ..< length g]"
    by simp
  then show ?thesis unfolding set_pixels_def by simp
qed

lemma sim_absdiff_self:
  assumes "sim_absdiff a a = Inr z"
  shows "all_zero z"
proof (rule all_zeroI)
  from assms have z: "z = map2 (map2 absdiff_px) a a" by (simp add: sim_absdiff_def)
  fix y x assume "y < length z" and "x < length (z ! y)"
  with z have "y < length a" and "x < length (a ! y)" by simp_all
  with z show "z ! y ! x = 0" by (simp add: absdiff_px_def)
qed

lemma sim_threshold_zero:
  assumes "all_zero z" and "sim_threshold z th mx ty = Inr t"
  shows "all_zero t"
proof (rule all_zeroI)
  from assms(2) have t: "t = map (map (\<lambda>p. if th < p then mx else 0)) z"
    by (simp add: sim_threshold_def)
  fix y x assume "y < length t" and "x < length (t ! y)"
  with t have "y < length z" and "x < length (z ! y)" by simp_all
  with t assms(1) show "t ! y ! x = 0" by (simp add: all_zeroD)
qed

lemma sim_blank_preserving: "blank_preserving sim_cv2"
  unfolding blank_preserving_def
proof (intro conjI allI impI)
  fix a z assume "absdiff sim_cv2 a a = Inr z"
  then show "all_zero z" by (simp add: sim_cv2_def sim_absdiff_self)
next
  fix z t assume "all_zero z \<and> threshold_cv sim_cv2 z 25 255 THRESH_BINARY = Inr t"
  then have "all_zero z" and "sim_threshold z 25 255 THRESH_BINARY = Inr t"
    by (simp_all add: sim_cv2_def)
  then show "all_zero t" by (rule sim_threshold_zero)
next
  fix z k n t assume "all_zero z \<and> dilate sim_cv2 z k n = Inr t"
  then have z: "all_zero z" and t: "t = (morph max 0 k ^^ n) z"
    by (simp_all add: sim_cv2_def sim_dilate_def)
  from z show "all_zero t" unfolding t by (rule funpow_zero [rotated]) (rule morph_max_zero)
next
  fix z k n t assume "all_zero z \<and> erode sim_cv2 z k n = Inr t"
  then have z: "all_zero z" and t: "t = (morph min 255 k ^^ n) z"
    by (simp_all add: sim_cv2_def sim_erode_def)
  from z show "all_zero t" unfolding t by (rule funpow_zero [rotated]) (rule morph_min_zero)
next
  fix z cs assume "all_zero z \<and> findContours sim_cv2 z RETR_EXTERNAL CHAIN_APPROX_SIMPLE = Inr cs"
  then have z: "all_zero z" and c: "sim_findContours z RETR_EXTERNAL CHAIN_APPROX_SIMPLE = Inr cs"
    by (simp_all add: sim_cv2_def)
  from c show "cs = []" by (simp add: sim_findContours_def set_pixels_zero [OF z])
qed

lemma changed_contours_blank:
  assumes "blank_preserving lib" and "changed_contours lib g g = Inr cs"
  shows "cs = []"
proof -
  from assms(2) obtain d t t1 t2 where
    d: "absdiff lib g g = Inr d" and
    t: "threshold_cv lib d 25 255 THRESH_BINARY = Inr t" and
    t1: "dilate lib t (np_ones 5 5) 2 = Inr t1" and
    t2: "erode lib t1 (np_ones 5 5) 1 = Inr t2" and
    cs: "findContours lib t2 RETR_EXTERNAL CHAIN_APPROX_SIMPLE = Inr cs"
    by (auto simp add: changed_contours_def split: sum.splits)
  from assms(1) d have "all_zero d" unfolding blank_preserving_def by blast
  with assms(1) t have "all_zero t" unfolding blank_preserving_def by blast
  with assms(1) t1 have "all_zero t1" unfolding blank_preserving_def by blast
  with assms(1) t2 have "all_zero t2" unfolding blank_preserving_def by blast
  with assms(1) cs show ?thesis unfolding blank_preserving_def by blast
qed

lemma changed_contours_mismatch_bright: "changed_contours sim_cv2 gray2 gray200 = Inl CvError"
  by code_simp

lemma try_mismatch_bright:
  "calculate_motion_try sim_cv2 0 ''cam1'' (world_with_reference gray2 [bright3]) =
     (Inl CvError, world_with_reference gray2 [bright3])"
  by (simp add: calculate_motion_try_def world_with_reference_simps blurred_gray_bright3
      changed_contours_mismatch_bright)

lemma shape_grays: "shape gray2 = (2, 2)" "shape gray3 = (3, 3)" "shape gray200 = (3, 3)"
  by (simp_all add: shape_def gray2_def gray3_def gray200_def)

subsection \<open>The caller's frame is never written\<close>

text \<open>
  Claim C10. \<open>calculate_motion\<close> never writes into the frame it is given: after the call
  the caller's frame, and every other array that existed before the call, holds what it
  held before. The frame returned is either the caller's own frame or an array that did
  not exist before the call (the copy onto which the rectangles are drawn).
\<close>

theorem calculate_motion_frame_untouched:
  assumes "allocated (heap w) frame"
  shows "heap (snd (calculate_motion lib frame cam w)) ! frame = heap w ! frame \<and>
         (\<forall>r. allocated (heap w) r \<longrightarrow>
              allocated (heap (snd (calculate_motion lib frame cam w))) r \<and>
              heap (snd (calculate_motion lib frame cam w)) ! r = heap w ! r) \<and>
         (snd (fst (calculate_motion lib frame cam w)) = frame \<or>
          \<not> allocated (heap w) (snd (fst (calculate_motion lib frame cam w))) \<and>
          allocated (heap (snd (calculate_motion lib frame cam w)))
            (snd (fst (calculate_motion lib frame cam w))))"
proof -
  obtain res w' where t: "calculate_motion_try lib frame cam w = (res, w')"
    by (cases "calculate_motion_try lib frame cam w")
  note st = calculate_motion_try_store [OF t]
  have w': "snd (calculate_motion lib frame cam w) = w'"
    using t by (simp add: calculate_motion_def split: sum.splits)
  have old: "\<forall>r. allocated (heap w) r \<longrightarrow> allocated (heap w') r \<and> heap w' ! r = heap w ! r"
    using st by (auto simp add: allocated_def)
  have ret: "snd (fst (calculate_motion lib frame cam w)) = frame \<or>
      \<not> allocated (heap w) (snd (fst (calculate_motion lib frame cam w))) \<and>
      allocated (heap w') (snd (fst (calculate_motion lib frame cam w)))"
  proof (cases res)
    case (Inl e)
    with t show ?thesis by (simp add: calculate_motion_def)
  next
    case (Inr br)
    obtain b r where br: "br = (b, r)" by (cases br)
    with Inr t have "fst (calculate_motion lib frame cam w) = (b, r)"
      by (simp add: calculate_motion_def)
    moreover from st Inr br
    have "r = frame \<or> r = length (heap w) \<and> length (heap w') = Suc (length (heap w))"
      by blast
    ultimately show ?thesis by (auto simp add: allocated_def)
  qed
  from old ret assms show ?thesis unfolding w' by blast
qed

theorem calculate_motion_frame_untouched_witness:
  "allocated (heap (world_with_reference gray3 [bright3])) 0 \<and>
   fst (calculate_motion sim_cv2 0 ''cam1'' (world_with_reference gray3 [bright3])) = (True, 1) \<and>
   heap (snd (calculate_motion sim_cv2 0 ''cam1'' (world_with_reference gray3 [bright3]))) ! 0
     = bright3 \<and>
   heap (snd (calculate_motion sim_cv2 0 ''cam1'' (world_with_reference gray3 [bright3]))) ! 1
     = outlined3 \<and>
   \<not> allocated (heap (world_with_reference gray3 [bright3])) 1 \<and>
   allocated (heap (snd (calculate_motion sim_cv2 0 ''cam1'' (world_with_reference gray3 [bright3])))) 1"
proof -
  have a: "allocated (heap (world_with_reference gray3 [bright3])) 0"
    by (simp add: allocated_def world_with_reference_simps)
  have run: "calculate_motion sim_cv2 0 ''cam1'' (world_with_reference gray3 [bright3]) =
      ((True, 1),
       (world_with_reference gray3 [bright3])
         \<lparr>heap := [bright3, outlined3],
          sys := (sys (world_with_reference gray3 [bright3]))
                   \<lparr>prev_frames := [''cam1'' \<mapsto> gray200]\<rparr>\<rparr>)"
    by (simp add: calculate_motion_def try_bright)
  from calculate_motion_frame_untouched [OF a, of sim_cv2 "''cam1''"]
  have "heap (snd (calculate_motion sim_cv2 0 ''cam1'' (world_with_reference gray3 [bright3]))) ! 0
     = bright3"
    by (simp add: world_with_reference_simps)
  with a run show ?thesis by (simp add: allocated_def world_with_reference_simps)
qed

subsection \<open>The reference after a detection pass\<close>

text \<open>
  Claim C5 as stated fails: a pass that ends in the exception handler leaves the old
  reference in place. Here the camera's reference is two pixels square and the new frame
  three pixels square; \<^verbatim>\<open>cv2.absdiff\<close> rejects the pair, and after the call the reference
  is still the old one, not the blurred grayscale version of the frame just processed.
\<close>

theorem calculate_motion_keeps_old_reference:
  "blurred_gray sim_cv2 (heap (world_with_reference gray2 [bright3]) ! 0) = Inr gray200 \<and>
   prev_frames
     (sys (snd (calculate_motion sim_cv2 0 ''cam1'' (world_with_reference gray2 [bright3]))))
     ''cam1'' = Some gray2 \<and>
   gray2 \<noteq> gray200"
proof -
  have "calculate_motion sim_cv2 0 ''cam1'' (world_with_reference gray2 [bright3]) =
      ((False, 0), world_with_reference gray2 [bright3])"
    by (simp add: calculate_motion_def try_mismatch_bright)
  moreover have "gray2 \<noteq> gray200" by (simp add: gray2_def gray200_def)
  ultimately show ?thesis
    by (simp add: world_with_reference_simps blurred_gray_bright3)
qed

text \<open>
  Claim C5, amended. Whenever the detection pass runs to its end (no call inside the
  \<^verbatim>\<open>try\<close> block raises), the camera's reference after the call is the blurred grayscale
  version of the frame just processed, whether or not motion was found. When a call
  inside the \<^verbatim>\<open>try\<close> block raises, \<open>calculate_motion\<close> returns \<^verbatim>\<open>False\<close> with the
  caller's frame and the \<^verbatim>\<open>CameraSystem\<close> object, references included, is as it was.
\<close>

theorem calculate_motion_reference_updated:
  "(calculate_motion_try lib frame cam w = (Inr (motion, out), w') \<longrightarrow>
      calculate_motion lib frame cam w = ((motion, out), w') \<and>
      (\<exists>g. blurred_gray lib (heap w ! frame) = Inr g \<and> prev_frames (sys w') cam = Some g)) \<and>
   (calculate_motion_try lib frame cam w = (Inl e, w') \<longrightarrow>
      calculate_motion lib frame cam w = ((False, frame), w') \<and> sys w' = sys w)"
proof (intro conjI impI)
  assume t: "calculate_motion_try lib frame cam w = (Inr (motion, out), w')"
  then show "calculate_motion lib frame cam w = ((motion, out), w')"
    by (simp add: calculate_motion_def)
  from t show "\<exists>g. blurred_gray lib (heap w ! frame) = Inr g \<and> prev_frames (sys w') cam = Some g"
    by (auto simp add: calculate_motion_try_def alloc_def
        split: sum.splits option.splits prod.splits)
next
  assume t: "calculate_motion_try lib frame cam w = (Inl e, w')"
  then show "calculate_motion lib frame cam w = ((False, frame), w')"
    by (simp add: calculate_motion_def)
  from t show "sys w' = sys w"
    by (auto simp add: calculate_motion_try_def alloc_def
        split: sum.splits option.splits prod.splits)
qed

theorem calculate_motion_reference_updated_witness:
  "fst (calculate_motion sim_cv2 0 ''cam1'' (world_with_reference gray3 [dark3])) = (False, 1) \<and>
   blurred_gray sim_cv2 dark3 = Inr gray3 \<and>
   prev_frames (sys (snd (calculate_motion sim_cv2 0 ''cam1'' (world_with_reference gray3 [dark3]))))
     ''cam1'' = Some gray3 \<and>
   fst (calculate_motion sim_cv2 0 ''cam1'' (world_with_reference gray3 [bright3])) = (True, 1) \<and>
   blurred_gray sim_cv2 bright3 = Inr gray200 \<and>
   prev_frames (sys (snd (calculate_motion sim_cv2 0 ''cam1'' (world_with_reference gray3 [bright3]))))
     ''cam1'' = Some gray200 \<and>
   calculate_motion sim_cv2 0 ''cam1'' (world_with_reference gray2 [dark3]) =
     ((False, 0), world_with_reference gray2 [dark3])"
proof -
  from calculate_motion_reference_updated [of sim_cv2 0 "''cam1''"
      "world_with_reference gray3 [dark3]" False 1 _ CvError] try_static
  have a: "fst (calculate_motion sim_cv2 0 ''cam1'' (world_with_reference gray3 [dark3])) = (False, 1)"
    and b: "prev_frames (sys (snd (calculate_motion sim_cv2 0 ''cam1''
              (world_with_reference gray3 [dark3])))) ''cam1'' = Some gray3"
    by simp_all
  from calculate_motion_reference_updated [of sim_cv2 0 "''cam1''"
      "world_with_reference gray3 [bright3]" True 1 _ CvError] try_bright
  have c: "fst (calculate_motion sim_cv2 0 ''cam1'' (world_with_reference gray3 [bright3])) = (True, 1)"
    and d: "prev_frames (sys (snd (calculate_motion sim_cv2 0 ''cam1''
              (world_with_reference gray3 [bright3])))) ''cam1'' = Some gray200"
    by simp_all
  from calculate_motion_reference_updated [of sim_cv2 0 "''cam1''"
      "world_with_reference gray2 [dark3]" False 0 "world_with_reference gray2 [dark3]" CvError]
    try_mismatch
  have e: "calculate_motion sim_cv2 0 ''cam1'' (world_with_reference gray2 [dark3]) =
     ((False, 0), world_with_reference gray2 [dark3])"
    by simp
  from a b c d e blurred_gray_dark3 blurred_gray_bright3 show ?thesis by simp
qed

subsection \<open>A reference of another size\<close>

text \<open>
  Claim C4 as stated fails in its last part: when the stored reference and the new frame
  differ in size, \<open>calculate_motion\<close> does not raise and reports no motion, but it does not
  reset the camera to the state without a reference. The reference of two by two pixels
  is still stored after a frame of three by three pixels has been processed.
\<close>

theorem calculate_motion_mismatch_not_reset:
  "prev_frames (sys (world_with_reference gray2 [dark3])) ''cam1'' = Some gray2 \<and>
   blurred_gray sim_cv2 (heap (world_with_reference gray2 [dark3]) ! 0) = Inr gray3 \<and>
   shape gray2 \<noteq> shape gray3 \<and>
   fst (calculate_motion sim_cv2 0 ''cam1'' (world_with_reference gray2 [dark3])) = (False, 0) \<and>
   prev_frames
     (sys (snd (calculate_motion sim_cv2 0 ''cam1'' (world_with_reference gray2 [dark3]))))
     ''cam1'' \<noteq> None"
  by (simp add: calculate_motion_def try_mismatch world_with_reference_simps
      blurred_gray_dark3 shape_grays)

text \<open>
  Claim C4, amended. Given that \<^verbatim>\<open>cv2.absdiff\<close> raises for arrays of different shape, a
  call of \<open>calculate_motion\<close> for a camera whose stored reference differs in shape from the
  blurred grayscale version of the new frame (neither being a single pixel) does not
  raise: it returns \<^verbatim>\<open>False\<close> with the caller's frame, and it leaves the world, the stored
  reference included, exactly as it was. The comparison of that cycle is discarded; the
  reference is neither removed nor replaced.
\<close>

theorem calculate_motion_shape_mismatch:
  assumes "absdiff_checks_shape lib"
    and "prev_frames (sys w) cam = Some r"
    and "blurred_gray lib (heap w ! frame) = Inr g"
    and "shape r \<noteq> shape g" and "shape r \<noteq> (1, 1)" and "shape g \<noteq> (1, 1)"
  shows "calculate_motion lib frame cam w = ((False, frame), w)"
proof -
  from assms(1,4,5,6) obtain e where "absdiff lib r g = Inl e"
    unfolding absdiff_checks_shape_def by blast
  then have "changed_contours lib r g = Inl e" by (simp add: changed_contours_def)
  with assms(2,3) show ?thesis
    by (simp add: calculate_motion_def calculate_motion_try_def)
qed

theorem calculate_motion_shape_mismatch_witness:
  "absdiff_checks_shape sim_cv2 \<and>
   prev_frames (sys (world_with_reference gray2 [dark3])) ''cam1'' = Some gray2 \<and>
   blurred_gray sim_cv2 (heap (world_with_reference gray2 [dark3]) ! 0) = Inr gray3 \<and>
   shape gray2 \<noteq> shape gray3 \<and> shape gray2 \<noteq> (1, 1) \<and> shape gray3 \<noteq> (1, 1) \<and>
   calculate_motion sim_cv2 0 ''cam1'' (world_with_reference gray2 [dark3]) =
     ((False, 0), world_with_reference gray2 [dark3])"
proof -
  have p: "prev_frames (sys (world_with_reference gray2 [dark3])) ''cam1'' = Some gray2"
    by (simp add: world_with_reference_simps)
  have g: "blurred_gray sim_cv2 (heap (world_with_reference gray2 [dark3]) ! 0) = Inr gray3"
    by (simp add: world_with_reference_simps blurred_gray_dark3)
  have s: "shape gray2 \<noteq> shape gray3" "shape gray2 \<noteq> (1, 1)" "shape gray3 \<noteq> (1, 1)"
    by (simp_all add: shape_grays)
  from calculate_motion_shape_mismatch [OF sim_absdiff_checks_shape p g s]
    sim_absdiff_checks_shape p g s
  show ?thesis by simp
qed

subsection \<open>The same frame twice\<close>

text \<open>
  Claim C9. Given that the library turns the difference of an array with itself into no
  contour (\<open>blank_preserving\<close>), when \<open>calculate_motion\<close> is called for a camera with a
  frame and then again with a frame holding the same bytes (the same array or another one),
  the second call returns \<^verbatim>\<open>False\<close>. This holds whatever the first call did: if it stored
  the frame's blurred grayscale version, the second call compares that version with itself
  and finds no contour; if it ended in the exception handler, so does the second.
\<close>

theorem calculate_motion_identical_frames:
  assumes "blank_preserving lib"
    and "heap (snd (calculate_motion lib frame cam w)) ! frame2 = heap w ! frame"
  shows "fst (fst (calculate_motion lib frame2 cam (snd (calculate_motion lib frame cam w)))) = False"
proof -
  let ?w1 = "snd (calculate_motion lib frame cam w)"
  have blank: "fst (fst (calculate_motion lib f cam v)) = False"
    if "blurred_gray lib (heap v ! f) = Inr g" and "prev_frames (sys v) cam = Some g" for f v g
  proof (cases "changed_contours lib g g")
    case (Inl e)
    with that show ?thesis by (simp add: calculate_motion_def calculate_motion_try_def)
  next
    case (Inr cs)
    with assms(1) have "cs = []" by (simp add: changed_contours_blank)
    with Inr that show ?thesis
      by (simp add: calculate_motion_def calculate_motion_try_def alloc_def)
  qed
  show ?thesis
  proof (cases "blurred_gray lib (heap w ! frame)")
    case (Inl e)
    with assms(2) show ?thesis by (simp add: calculate_motion_def calculate_motion_try_def)
  next
    case g: (Inr gray_img)
    with assms(2) have g2: "blurred_gray lib (heap ?w1 ! frame2) = Inr gray_img" by simp
    show ?thesis
    proof (cases "prev_frames (sys w) cam")
      case None
      with g have "prev_frames (sys ?w1) cam = Some gray_img"
        by (simp add: calculate_motion_def calculate_motion_try_def)
      with g2 show ?thesis by (rule blank)
    next
      case prev: (Some prev_gray)
      show ?thesis
      proof (cases "changed_contours lib prev_gray gray_img")
        case (Inl e)
        with g prev have same: "?w1 = w"
          by (simp add: calculate_motion_def calculate_motion_try_def)
        from g2 prev Inl show ?thesis unfolding same
          by (simp add: calculate_motion_def calculate_motion_try_def)
      next
        case cs: (Inr contours)
        let ?h1 = "heap w @ [heap w ! frame]"
        let ?m = "mark_contours lib (config (sys w)) (length (heap w)) contours False ?h1"
        obtain res h2 where m: "?m = (res, h2)" by (cases ?m)
        show ?thesis
        proof (cases res)
          case (Inr motion_detected)
          with m g prev cs have "prev_frames (sys ?w1) cam = Some gray_img"
            by (simp add: calculate_motion_def calculate_motion_try_def alloc_def)
          with g2 show ?thesis by (rule blank)
        next
          case (Inl e)
          with m g prev cs have w1: "?w1 = w\<lparr>heap := h2\<rparr>"
            by (simp add: calculate_motion_def calculate_motion_try_def alloc_def)
          let ?h2 = "heap ?w1 @ [heap ?w1 ! frame2]"
          let ?m2 = "mark_contours lib (config (sys w)) (length (heap ?w1)) contours False ?h2"
          obtain res2 h3 where m2: "?m2 = (res2, h3)" by (cases ?m2)
          have "fst ?m = fst ?m2"
            by (rule mark_contours_same_outcome) (simp_all add: assms(2))
          with m m2 Inl have res2: "res2 = Inl e" by simp
          have "sys ?w1 = sys w" unfolding w1 by simp
          with m2 res2 g2 prev cs show ?thesis
            by (simp add: calculate_motion_def calculate_motion_try_def alloc_def)
        qed
      qed
    qed
  qed
qed

theorem calculate_motion_identical_frames_witness:
  "blank_preserving sim_cv2 \<and>
   heap (snd (calculate_motion sim_cv2 0 ''cam1'' (world_with_reference gray3 [bright3]))) ! 0
     = heap (world_with_reference gray3 [bright3]) ! 0 \<and>
   fst (fst (calculate_motion sim_cv2 0 ''cam1'' (world_with_reference gray3 [bright3]))) = True \<and>
   fst (fst (calculate_motion sim_cv2 0 ''cam1''
     (snd (calculate_motion sim_cv2 0 ''cam1'' (world_with_reference gray3 [bright3]))))) = False"
proof -
  have same: "heap (snd (calculate_motion sim_cv2 0 ''cam1'' (world_with_reference gray3 [bright3]))) ! 0
     = heap (world_with_reference gray3 [bright3]) ! 0"
    by (simp add: calculate_motion_def try_bright world_with_reference_simps)
  have first: "fst (fst (calculate_motion sim_cv2 0 ''cam1'' (world_with_reference gray3 [bright3]))) = True"
    by (simp add: calculate_motion_def try_bright)
  from calculate_motion_identical_frames [OF sim_blank_preserving same]
    sim_blank_preserving same first
  show ?thesis by simp
qed

subsection \<open>Reconnecting a stream\<close>

lemma open_stream_log:
  "\<exists>evs. io_log (snd (open_stream io cam cd w)) = io_log w @ Connect (url cd) # evs \<and>
         reconnects evs = 0"
  by (auto simp add: open_stream_def Let_def alloc_def reconnects_def
      split: sum.splits option.splits prod.splits)

lemma open_stream_fails:
  assumes "connect_fails io cd"
  shows "fst (open_stream io cam cd w) = None \<and>
         sys (snd (open_stream io cam cd w)) = sys w"
  using assms
  by (auto simp add: open_stream_def connect_fails_def Let_def
      split: sum.splits option.splits prod.splits)

text \<open>
  Claim C7. A fetch from a camera whose URL is classified as a stream calls
  \<^verbatim>\<open>cv2.VideoCapture\<close> at most once, whatever happens; the function has no loop. When the
  camera has an open handle whose read fails, the fetch reads it, releases it, removes it
  from the table and then opens exactly one new connection. If that new connection gives no
  frame (it cannot be opened, or its first read fails), the fetch returns \<^verbatim>\<open>None\<close> and
  the camera has no handle in the table. The same holds when the camera had no handle to
  begin with.
\<close>

theorem process_camera_reconnects_once:
  assumes "is_mjpeg_url io (url cd)"
  shows
   "(\<exists>evs. io_log (snd (process_camera io cam cd w)) = io_log w @ evs \<and> reconnects evs \<le> 1) \<and>
    (\<forall>st. mjpeg_streams (sys w) cam = Some st \<and> opened st \<and> fst (stream_read st) = None \<longrightarrow>
       (\<exists>evs. io_log (snd (process_camera io cam cd w)) =
                 io_log w @ [Read (sid st), Release (sid st), Connect (url cd)] @ evs \<and>
              reconnects evs = 0) \<and>
       (connect_fails io cd \<longrightarrow>
          fst (process_camera io cam cd w) = None \<and>
          mjpeg_streams (sys (snd (process_camera io cam cd w))) cam = None)) \<and>
    (mjpeg_streams (sys w) cam = None \<and> connect_fails io cd \<longrightarrow>
       fst (process_camera io cam cd w) = None \<and>
       mjpeg_streams (sys (snd (process_camera io cam cd w))) cam = None)"
proof (intro conjI allI impI)
  have pc: "process_camera io cam cd w = process_mjpeg_camera io cam cd w"
    using assms by (simp add: process_camera_def)
  show "\<exists>evs. io_log (snd (process_camera io cam cd w)) = io_log w @ evs \<and> reconnects evs \<le> 1"
  proof (cases "mjpeg_streams (sys w) cam")
    case None
    with open_stream_log [of io cam cd w] show ?thesis
      unfolding pc by (auto simp add: process_mjpeg_camera_def reconnects_def)
  next
    case (Some st)
    show ?thesis
    proof (cases "opened st")
      case False
      with Some open_stream_log [of io cam cd w] show ?thesis
        unfolding pc by (auto simp add: process_mjpeg_camera_def reconnects_def)
    next
      case True
      obtain r st' where rd: "stream_read st = (r, st')" by (cases "stream_read st")
      show ?thesis
      proof (cases r)
        case (Some img)
        with \<open>mjpeg_streams (sys w) cam = Some st\<close> True rd show ?thesis
          unfolding pc
          by (simp add: process_mjpeg_camera_def Let_def alloc_def reconnects_def)
      next
        case None
        let ?w2 = "w\<lparr>io_log := io_log w @ [Read (sid st)]\<rparr>
                    \<lparr>io_log := io_log (w\<lparr>io_log := io_log w @ [Read (sid st)]\<rparr>) @ [Release (sid st)],
                     sys := (sys (w\<lparr>io_log := io_log w @ [Read (sid st)]\<rparr>))
                       \<lparr>mjpeg_streams :=
                          (mjpeg_streams (sys (w\<lparr>io_log := io_log w @ [Read (sid st)]\<rparr>)))(cam := None)\<rparr>\<rparr>"
        from None \<open>mjpeg_streams (sys w) cam = Some st\<close> True rd
        have "process_mjpeg_camera io cam cd w = open_stream io cam cd ?w2"
          by (simp add: process_mjpeg_camera_def Let_def)
        with open_stream_log [of io cam cd ?w2] show ?thesis
          unfolding pc by (auto simp add: reconnects_def)
      qed
    qed
  qed
next
  fix st
  assume a: "mjpeg_streams (sys w) cam = Some st \<and> opened st \<and> fst (stream_read st) = None"
  have pc: "process_camera io cam cd w = process_mjpeg_camera io cam cd w"
    using assms by (simp add: process_camera_def)
  let ?w2 = "w\<lparr>io_log := io_log w @ [Read (sid st)]\<rparr>
              \<lparr>io_log := io_log (w\<lparr>io_log := io_log w @ [Read (sid st)]\<rparr>) @ [Release (sid st)],
               sys := (sys (w\<lparr>io_log := io_log w @ [Read (sid st)]\<rparr>))
                 \<lparr>mjpeg_streams :=
                    (mjpeg_streams (sys (w\<lparr>io_log := io_log w @ [Read (sid st)]\<rparr>)))(cam := None)\<rparr>\<rparr>"
  obtain st' where rd: "stream_read st = (None, st')"
    using a by (cases "stream_read st") auto
  with a have run: "process_mjpeg_camera io cam cd w = open_stream io cam cd ?w2"
    by (simp add: process_mjpeg_camera_def Let_def)
  from open_stream_log [of io cam cd ?w2]
  show "\<exists>evs. io_log (snd (process_camera io cam cd w)) =
                 io_log w @ [Read (sid st), Release (sid st), Connect (url cd)] @ evs \<and>
              reconnects evs = 0"
    unfolding pc run by auto
  {
    assume "connect_fails io cd"
    from open_stream_fails [OF this, of cam ?w2]
    show "fst (process_camera io cam cd w) = None" unfolding pc run by simp
    from open_stream_fails [OF \<open>connect_fails io cd\<close>, of cam ?w2]
    show "mjpeg_streams (sys (snd (process_camera io cam cd w))) cam = None"
      unfolding pc run by simp
  }
next
  assume a: "mjpeg_streams (sys w) cam = None \<and> connect_fails io cd"
  have pc: "process_camera io cam cd w = process_mjpeg_camera io cam cd w"
    using assms by (simp add: process_camera_def)
  from a have run: "process_mjpeg_camera io cam cd w = open_stream io cam cd w"
    by (simp add: process_mjpeg_camera_def)
  from a open_stream_fails [of io cd cam w]
  show "fst (process_camera io cam cd w) = None" unfolding pc run by simp
  from a open_stream_fails [of io cd cam w]
  show "mjpeg_streams (sys (snd (process_camera io cam cd w))) cam = None"
    unfolding pc run by simp
qed

lemma mjpeg_cam_is_stream: "is_mjpeg_url dead_io (url mjpeg_cam)"
  by (simp add: is_mjpeg_url_def dead_io_def mjpeg_cam_def lower_def lower_char_def)

theorem process_camera_reconnects_once_witness:
  "is_mjpeg_url dead_io (url mjpeg_cam) \<and>
   mjpeg_streams (sys stalled_world) ''cam1'' = Some \<lparr>sid = 1, opened = True, pending = []\<rparr> \<and>
   fst (stream_read \<lparr>sid = 1, opened = True, pending = []\<rparr>) = None \<and>
   connect_fails dead_io mjpeg_cam \<and>
   fst (process_camera dead_io ''cam1'' mjpeg_cam stalled_world) = None \<and>
   mjpeg_streams (sys (snd (process_camera dead_io ''cam1'' mjpeg_cam stalled_world))) ''cam1'' = None \<and>
   io_log (snd (process_camera dead_io ''cam1'' mjpeg_cam stalled_world)) =
     [Read 1, Release 1, Connect ''http://10.0.0.7/Video.MJPG''] \<and>
   mjpeg_streams (sys (init_world [])) ''cam1'' = None \<and>
   fst (process_camera dead_io ''cam1'' mjpeg_cam (init_world [])) = None \<and>
   mjpeg_streams (sys (snd (process_camera dead_io ''cam1'' mjpeg_cam (init_world [])))) ''cam1'' = None"
proof -
  have h: "mjpeg_streams (sys stalled_world) ''cam1'' = Some \<lparr>sid = 1, opened = True, pending = []\<rparr>"
    by (simp add: stalled_world_def)
  have rd: "fst (stream_read \<lparr>sid = 1, opened = True, pending = []\<rparr>) = None"
    by (simp add: stream_read_def)
  have cf: "connect_fails dead_io mjpeg_cam"
    by (simp add: connect_fails_def dead_io_def)
  have nh: "mjpeg_streams (sys (init_world [])) ''cam1'' = None"
    by (simp add: init_world_def init_system_def)
  note r = process_camera_reconnects_once [OF mjpeg_cam_is_stream, of "''cam1''" stalled_world]
  from r h rd cf
  have a: "fst (process_camera dead_io ''cam1'' mjpeg_cam stalled_world) = None"
    and b: "mjpeg_streams (sys (snd (process_camera dead_io ''cam1'' mjpeg_cam stalled_world))) ''cam1'' = None"
    by simp_all
  have pc: "process_camera dead_io ''cam1'' mjpeg_cam stalled_world =
      process_mjpeg_camera dead_io ''cam1'' mjpeg_cam stalled_world"
    using mjpeg_cam_is_stream by (simp add: process_camera_def)
  have e: "io_log (snd (process_camera dead_io ''cam1'' mjpeg_cam stalled_world)) =
     [Read 1, Release 1, Connect ''http://10.0.0.7/Video.MJPG'']"
    unfolding pc
    by (simp add: process_mjpeg_camera_def stalled_world_def stream_read_def open_stream_def
        dead_io_def mjpeg_cam_def Let_def)
  from process_camera_reconnects_once [OF mjpeg_cam_is_stream, of "''cam1''" "init_world []"] nh cf
  have f: "fst (process_camera dead_io ''cam1'' mjpeg_cam (init_world [])) = None"
    and g: "mjpeg_streams (sys (snd (process_camera dead_io ''cam1'' mjpeg_cam (init_world [])))) ''cam1'' = None"
    by simp_all
  from mjpeg_cam_is_stream h rd cf a b e nh f g show ?thesis by blast
qed

end
